theory Spec2Isabelle
  imports Complex_Main "HOL-Library.Sublist"
begin

section \<open>Python strings\<close>

text \<open>
  A Python \<open>str\<close> is modelled as a \<open>string\<close> whose characters are the code points
  below 256. On that range \<open>str.lower\<close> maps \<open>A\<close>..\<open>Z\<close> and the Latin-1 capitals
  (192..222 without the multiplication sign 215) to the code point 32 above and leaves
  every other character alone; \<open>str.isspace\<close> holds of 9..13, 28..32, 133 and 160.
  The emoji of the fixed messages are written as their UTF-8 bytes.
\<close>

definition nl :: string where
  "nl = [CHR 0x0A]"

definition lower_char :: "char \<Rightarrow> char" where
  "lower_char c =
     (let n = (of_char c :: nat)
      in if (65 \<le> n \<and> n \<le> 90) \<or> (192 \<le> n \<and> n \<le> 222 \<and> n \<noteq> 215)
         then char_of (n + 32) else c)"

definition lower :: "string \<Rightarrow> string" where
  "lower s = map lower_char s"

definition isspace :: "char \<Rightarrow> bool" where
  "isspace c =
     (let n = (of_char c :: nat)
      in (9 \<le> n \<and> n \<le> 13) \<or> (28 \<le> n \<and> n \<le> 32) \<or> n = 133 \<or> n = 160)"

definition strip :: "string \<Rightarrow> string" where
  "strip s = rev (dropWhile isspace (rev (dropWhile isspace s)))"

text \<open>Python's \<open>k in s\<close> on strings: \<open>k\<close> occurs in \<open>s\<close> as a contiguous run.\<close>

fun str_in :: "string \<Rightarrow> string \<Rightarrow> bool" where
  "str_in k [] = (k = [])"
| "str_in k (c # cs) = (prefix k (c # cs) \<or> str_in k cs)"

text \<open>\<open>sep.join(parts)\<close>.\<close>

fun join :: "string \<Rightarrow> string list \<Rightarrow> string" where
  "join sep [] = []"
| "join sep [p] = p"
| "join sep (p # q # ps) = p @ sep @ join sep (q # ps)"

section \<open>core/persona.py\<close>

definition disclaimer_low_confidence :: string where
  "disclaimer_low_confidence =
     [CHR 0xE2, CHR 0x9A, CHR 0xA0, CHR 0xEF, CHR 0xB8, CHR 0x8F] @
     '' I have limited information on this topic. Please consult a healthcare professional for accurate guidance.''"

definition disclaimer_out_of_scope :: string where
  "disclaimer_out_of_scope =
     ''This question is outside my knowledge base. I recommend speaking with a qualified medical professional.''"

definition disclaimer_emergency :: string where
  "disclaimer_emergency =
     [CHR 0xF0, CHR 0x9F, CHR 0x9A, CHR 0xA8] @
     '' If this is a medical emergency, please call emergency services immediately or visit the nearest hospital.''"

text \<open>
  \<open>format_response\<close>: the template is \<open>{response}\<close>, so formatting it gives the raw text
  back; the low-confidence warning and a blank line go in front when the confidence is
  below one half. The confidence is the value of a double, and the comparison with 0.5
  is exact on it.
\<close>

definition format_response :: "string \<Rightarrow> real \<Rightarrow> string" where
  "format_response raw_response confidence =
     (let formatted = raw_response
      in if confidence < 0.5
         then disclaimer_low_confidence @ nl @ nl @ formatted
         else formatted)"

definition emergency_keywords :: "string list" where
  "emergency_keywords =
     [''chest pain'', ''heart attack'', ''stroke'', ''can't breathe'',
      ''severe bleeding'', ''unconscious'', ''suicide'', ''overdose'',
      ''severe pain'', ''emergency'', ''dying'']"

definition detect_emergency_keywords :: "string \<Rightarrow> bool" where
  "detect_emergency_keywords query =
     (let query_lower = lower query
      in list_ex (\<lambda>keyword. str_in keyword query_lower) emergency_keywords)"

definition get_emergency_response :: string where
  "get_emergency_response =
     disclaimer_emergency @ nl @ nl @
     ''I'm designed to provide general medical information, not emergency assistance. Your safety is the top priority.''"

section \<open>models/schemas.py and the cached dictionary\<close>

record Source =
  url :: string
  title :: "string option"
  relevance_score :: real

text \<open>
  A request as the handler receives it: the framework has already rejected a query of
  more than 500 characters.
\<close>

record ChatRequest =
  query :: string
  session_id :: string

record ChatResponse =
  response :: string
  sources :: "Source list"
  confidence :: real
  cached :: bool
  transcribed_query :: "string option"
  audio_url :: "string option"

text \<open>
  The dictionary \<open>{'response', 'sources', 'confidence'}\<close> that the routes hand to
  \<open>cache_manager.set\<close> and read back from \<open>cache_manager.get\<close>. \<open>json.dumps\<close>
  followed by \<open>json.loads\<close> gives the dictionary back, so the store holds it as it is.
\<close>

record cache_data =
  cached_response :: string
  cached_sources :: "Source list"
  cached_confidence :: real

section \<open>The collaborators\<close>

text \<open>
  A retrieved match as \<open>VectorDatabase.search\<close> returns it, and the index entry it is
  built from (\<open>section\<close> and \<open>chunk_index\<close> are optional in the metadata).
\<close>

record chunk =
  chunk_id :: string
  score :: real
  chunk_text :: string
  source_url :: string
  chunk_title :: string
  topic :: string
  chunk_section :: string
  chunk_index :: int

record index_match =
  im_id :: string
  im_score :: real
  md_text :: string
  md_source_url :: string
  md_title :: string
  md_topic :: string
  md_section :: "string option"
  md_chunk_index :: "int option"

datatype py_exception =
    ValueError | TypeError | ZeroDivisionError | IndexError
  | EmbeddingError | PineconeError | GenerationError | MongoError | RedisError

datatype http_exception = HTTPException nat py_exception

text \<open>
  The services behind the pipeline and the settings read at start-up. Each service is a
  function of its arguments that returns a value or raises; \<open>md5_hexdigest\<close> is
  \<open>hashlib.md5(b).hexdigest()\<close>. \<open>completion\<close> is the chat completion call; it
  returns the message contents of the response's choices.

  A score or a confidence is a Python float, a finite double (the index is created with
  the cosine metric, and a sum of such scores stays finite); the model holds its value
  as a real, on which comparisons, \<open>min\<close> and the constants 0.0, 0.5 and 1.0 are exact.
  What the interpreter computes in double precision is not: \<open>float_sum\<close> is the
  built-in \<open>sum\<close> on a list of floats (its rounding depends on the interpreter's
  version) and \<open>float_div x n\<close> is the float \<open>x / n\<close> for an integer \<open>n\<close>.
\<close>

record env =
  md5_hexdigest :: "string \<Rightarrow> string"
  create_embedding :: "string \<Rightarrow> py_exception + real list"
  index_query :: "real list \<Rightarrow> int \<Rightarrow> (string \<times> string) list \<Rightarrow> py_exception + index_match list"
  completion :: "string \<Rightarrow> py_exception + string list"
  float_sum :: "real list \<Rightarrow> real"
  float_div :: "real \<Rightarrow> nat \<Rightarrow> real"
  CACHE_TTL :: int
  TOP_K_RESULTS :: int

text \<open>The calls made to the collaborators, in the order they are made.\<close>

datatype event =
    CacheGet string
  | CacheSetex string
  | CacheKeys string
  | CacheDelete
  | Embed string
  | VectorSearch int
  | Generate string
  | SaveQuery string string

record query_document =
  qd_session_id :: string
  qd_user_query :: string
  qd_response :: string
  qd_sources :: "Source list"
  qd_confidence :: real
  qd_cached :: bool

text \<open>
  The mutable world: the Redis store (key to time-to-live and value; a call on an
  unreachable server raises), the MongoDB query collection, and the log of calls.
\<close>

record world =
  redis_up :: bool
  redis_kv :: "string \<rightharpoonup> (int \<times> cache_data)"
  mongo_up :: bool
  mongo_queries :: "query_document list"
  calls :: "event list"

definition log_call :: "event \<Rightarrow> world \<Rightarrow> world" where
  "log_call e w = w\<lparr>calls := calls w @ [e]\<rparr>"

section \<open>Redis key patterns\<close>

text \<open>
  The glob patterns of the Redis \<open>KEYS\<close> command: \<open>*\<close> matches any run of characters,
  \<open>?\<close> one character, \<open>[...]\<close> one character of a class (\<open>^\<close> negates it, \<open>a-z\<close>
  is a range), a backslash takes the next character literally, and every other
  character matches itself. \<open>class_scan body x\<close> reads a class body up to its closing
  bracket: whether \<open>x\<close> is in it, and how many pattern characters it spans.
\<close>

definition in_range :: "char \<Rightarrow> char \<Rightarrow> char \<Rightarrow> bool" where
  "in_range lo hi x =
     (let a = (of_char lo :: nat); b = (of_char hi :: nat); n = (of_char x :: nat)
      in min a b \<le> n \<and> n \<le> max a b)"

fun class_scan :: "string \<Rightarrow> char \<Rightarrow> bool \<times> nat" where
  "class_scan [] x = (False, 0)"
| "class_scan (c # p) x =
     (if c = CHR '']'' then (False, 1)
      else if c = CHR 0x5C \<and> p \<noteq> [] then
        (let (m, n) = class_scan (tl p) x in (hd p = x \<or> m, n + 2))
      else if 2 \<le> length p \<and> hd p = CHR ''-'' then
        (let (m, n) = class_scan (tl (tl p)) x in (in_range c (hd (tl p)) x \<or> m, n + 3))
      else
        (let (m, n) = class_scan p x in (c = x \<or> m, n + 1)))"

fun stringmatch :: "string \<Rightarrow> string \<Rightarrow> bool" where
  "stringmatch [] s = (s = [])"
| "stringmatch (c # p) [] = (c = CHR ''*'' \<and> stringmatch p [])"
| "stringmatch (c # p) (x # s) =
     (if c = CHR ''*'' then stringmatch p (x # s) \<or> stringmatch (c # p) s
      else if c = CHR ''?'' then stringmatch p s
      else if c = CHR ''['' then
        (let neg = (p \<noteq> [] \<and> hd p = CHR ''^'');
             body = (if neg then tl p else p);
             (m, n) = class_scan body x
         in (m \<noteq> neg) \<and> stringmatch (drop n body) s)
      else if c = CHR 0x5C \<and> p \<noteq> [] then hd p = x \<and> stringmatch (tl p) s
      else c = x \<and> stringmatch p s)"

section \<open>core/cache.py\<close>

text \<open>\<open>str.encode()\<close>: the UTF-8 bytes of the code points below 256.\<close>

definition encode_char :: "char \<Rightarrow> string" where
  "encode_char c =
     (let n = (of_char c :: nat)
      in if n < 128 then [c] else [char_of (192 + n div 64), char_of (128 + n mod 64)])"

definition encode :: "string \<Rightarrow> string" where
  "encode s = concat (map encode_char s)"

definition generate_key :: "env \<Rightarrow> string \<Rightarrow> string \<Rightarrow> string" where
  "generate_key e q sid =
     (let content = strip (lower q) @ '':'' @ sid
      in ''chat:'' @ md5_hexdigest e (encode content))"

text \<open>
  \<open>CacheManager.get\<close>: a stored value is returned, a missing one and a failing store
  both give \<open>None\<close>.
\<close>

definition cache_get :: "env \<Rightarrow> string \<Rightarrow> string \<Rightarrow> world \<Rightarrow> world \<times> cache_data option" where
  "cache_get e q sid w =
     (let key = generate_key e q sid;
          w1 = log_call (CacheGet key) w
      in if \<not> redis_up w then (w1, None)
         else case redis_kv w key of
                Some (ttl, v) \<Rightarrow> (w1, Some v)
              | None \<Rightarrow> (w1, None))"

text \<open>\<open>CacheManager.set\<close>: \<open>SETEX key ttl value\<close>; \<open>False\<close> when the store fails.\<close>

definition cache_set :: "env \<Rightarrow> string \<Rightarrow> cache_data \<Rightarrow> string \<Rightarrow> world \<Rightarrow> world \<times> bool" where
  "cache_set e q v sid w =
     (let key = generate_key e q sid;
          w1 = log_call (CacheSetex key) w
      in if \<not> redis_up w then (w1, False)
         else (w1\<lparr>redis_kv := (redis_kv w1)(key \<mapsto> (CACHE_TTL e, v))\<rparr>, True))"

definition redis_keys :: "string \<Rightarrow> world \<Rightarrow> string set" where
  "redis_keys pattern w = {k \<in> dom (redis_kv w). stringmatch pattern k}"

definition redis_delete :: "string set \<Rightarrow> world \<Rightarrow> world" where
  "redis_delete ks w = w\<lparr>redis_kv := redis_kv w |` (- ks)\<rparr>"

text \<open>
  \<open>CacheManager.clear_session\<close>: the keys matching \<open>chat:*:<session_id>\<close> are listed
  and, when there are any, deleted.
\<close>

definition clear_session :: "string \<Rightarrow> world \<Rightarrow> world \<times> bool" where
  "clear_session sid w =
     (let pattern = ''chat:*:'' @ sid;
          w1 = log_call (CacheKeys pattern) w
      in if \<not> redis_up w then (w1, False)
         else (let keys = redis_keys pattern w1
               in if keys \<noteq> {} then (redis_delete keys (log_call CacheDelete w1), True)
                  else (w1, True)))"

section \<open>Python values and \<open>int()\<close>\<close>

text \<open>
  What a caller can pass for \<open>top_k\<close>. \<open>truthy\<close> is the truth value Python gives
  the object; \<open>py_int\<close> is the built-in \<open>int()\<close>: a float is truncated towards zero
  and anything but a number or a string raises. Of a string, \<open>int()\<close> skips the
  whitespace at both ends, which for it is 9..13, 32, 133 and 160 (the separators 28..31
  that \<open>str.strip\<close> removes are not skipped), then reads an optional sign and decimal
  digits with single underscores allowed between digits; a text with more than
  \<open>int_max_str_digits\<close> digits is refused (4300, the interpreter's default).
\<close>

datatype pyval =
    PyNone | PyBool bool | PyInt int | PyFloat real | PyStr string | PyList "pyval list"

fun truthy :: "pyval \<Rightarrow> bool" where
  "truthy PyNone = False"
| "truthy (PyBool b) = b"
| "truthy (PyInt i) = (i \<noteq> 0)"
| "truthy (PyFloat x) = (x \<noteq> 0)"
| "truthy (PyStr s) = (s \<noteq> [])"
| "truthy (PyList xs) = (xs \<noteq> [])"

definition isdigit :: "char \<Rightarrow> bool" where
  "isdigit c = (let n = (of_char c :: nat) in 48 \<le> n \<and> n \<le> 57)"

fun parse_digits :: "string \<Rightarrow> bool \<Rightarrow> int \<Rightarrow> int option" where
  "parse_digits [] after_digit acc = (if after_digit then Some acc else None)"
| "parse_digits (c # cs) after_digit acc =
     (if isdigit c then parse_digits cs True (10 * acc + (int (of_char c) - 48))
      else if c = CHR ''_'' \<and> after_digit then parse_digits cs False acc
      else None)"

definition int_isspace :: "char \<Rightarrow> bool" where
  "int_isspace c =
     (let n = (of_char c :: nat)
      in (9 \<le> n \<and> n \<le> 13) \<or> n = 32 \<or> n = 133 \<or> n = 160)"

definition int_strip :: "string \<Rightarrow> string" where
  "int_strip s = rev (dropWhile int_isspace (rev (dropWhile int_isspace s)))"

definition int_max_str_digits :: nat where
  "int_max_str_digits = 4300"

definition int_of_str :: "string \<Rightarrow> py_exception + int" where
  "int_of_str s =
     (let t = int_strip s;
          r = (case t of
                 [] \<Rightarrow> None
               | c # cs \<Rightarrow>
                   if c = CHR ''-'' then map_option uminus (parse_digits cs False 0)
                   else if c = CHR ''+'' then parse_digits cs False 0
                   else parse_digits t False 0)
      in if int_max_str_digits < length (filter isdigit t) then Inl ValueError
         else case r of None \<Rightarrow> Inl ValueError | Some i \<Rightarrow> Inr i)"

fun py_int :: "pyval \<Rightarrow> py_exception + int" where
  "py_int PyNone = Inl TypeError"
| "py_int (PyBool b) = Inr (if b then 1 else 0)"
| "py_int (PyInt i) = Inr i"
| "py_int (PyFloat x) = Inr (if 0 \<le> x then \<lfloor>x\<rfloor> else \<lceil>x\<rceil>)"
| "py_int (PyStr s) = int_of_str s"
| "py_int (PyList xs) = Inl TypeError"

text \<open>\<open>str(i)\<close> for a non-negative integer.\<close>

fun str_nat :: "nat \<Rightarrow> string" where
  "str_nat n =
     (if n < 10 then [char_of (48 + n)]
      else str_nat (n div 10) @ [char_of (48 + n mod 10)])"

section \<open>services/vector_store.py\<close>

definition format_match :: "index_match \<Rightarrow> chunk" where
  "format_match m =
     \<lparr>chunk_id = im_id m,
      score = im_score m,
      chunk_text = md_text m,
      source_url = md_source_url m,
      chunk_title = md_title m,
      topic = md_topic m,
      chunk_section = (case md_section m of Some s \<Rightarrow> s | None \<Rightarrow> ''General''),
      chunk_index = (case md_chunk_index m of Some i \<Rightarrow> i | None \<Rightarrow> 0)\<rparr>"

definition build_filter :: "string option \<Rightarrow> string option \<Rightarrow> (string \<times> string) list" where
  "build_filter topic_filter section_filter =
     (case topic_filter of
        Some t \<Rightarrow> if t \<noteq> [] then [(''topic'', t)] else []
      | None \<Rightarrow> []) @
     (case section_filter of
        Some s \<Rightarrow> if s \<noteq> [] then [(''section'', s)] else []
      | None \<Rightarrow> [])"

text \<open>
  \<open>VectorDatabase.search\<close>: a zero \<open>top_k\<close> is replaced by the configured
  \<open>TOP_K_RESULTS\<close>, the index is queried, and its matches are reshaped.
\<close>

definition search ::
  "env \<Rightarrow> real list \<Rightarrow> int \<Rightarrow> string option \<Rightarrow> string option \<Rightarrow> world
   \<Rightarrow> world \<times> (py_exception + chunk list)" where
  "search e query_embedding top_k topic_filter section_filter w =
     (let top_k' = (if top_k \<noteq> 0 then top_k else TOP_K_RESULTS e);
          filter_dict = build_filter topic_filter section_filter;
          w1 = log_call (VectorSearch top_k') w
      in case index_query e query_embedding top_k' filter_dict of
           Inl ex \<Rightarrow> (w1, Inl ex)
         | Inr results \<Rightarrow> (w1, Inr (map format_match results)))"

section \<open>services/llm.py\<close>

record llm_result =
  llm_response :: string
  llm_confidence :: real
  llm_emergency :: bool
  llm_raw_response :: "string option"
  llm_error :: "py_exception option"

definition CHAIN_OF_THOUGHT_PROMPT :: "string \<Rightarrow> string \<Rightarrow> string" where
  "CHAIN_OF_THOUGHT_PROMPT context question =
     ''You are Dr. Asha, a knowledgeable medical assistant. Answer the question using the provided context.'' @ nl @
     nl @
     ''Context from medical sources:'' @ nl @
     context @ nl @
     nl @
     ''Question: '' @ question @ nl @
     nl @
     ''Instructions:'' @ nl @
     ''1. Read the context carefully and extract all relevant information'' @ nl @
     ''2. Provide a comprehensive, detailed answer that thoroughly addresses the question'' @ nl @
     ''3. Explain medical concepts clearly with examples when helpful'' @ nl @
     ''4. If the user asks '' @ [CHR 0x22] @ ''What is X?'' @ [CHR 0x22] @ '', provide a complete explanation including definition, causes, symptoms, and other relevant details from the context'' @ nl @
     ''5. Use a friendly, conversational tone while maintaining medical accuracy'' @ nl @
     ''6. Provide 3-5 paragraphs of detailed information when appropriate'' @ nl @
     ''7. Only state limited information if the context truly lacks relevant content'' @ nl @
     nl @
     ''Provide a detailed, informative answer:'' @ nl"

fun format_chunks :: "nat \<Rightarrow> chunk list \<Rightarrow> string list" where
  "format_chunks i [] = []"
| "format_chunks i (c # cs) =
     (''[Source '' @ str_nat i @ '': '' @ chunk_title c @ '']'' @ nl @
      chunk_text c @ nl @
      ''(Source: '' @ source_url c @ '')'' @ nl) # format_chunks (Suc i) cs"

definition format_context :: "chunk list \<Rightarrow> string" where
  "format_context chunks = join (nl @ ''---'' @ nl) (format_chunks 1 chunks)"

definition generation_failed :: "py_exception \<Rightarrow> llm_result" where
  "generation_failed ex =
     \<lparr>llm_response = ''I apologize, but I'm having trouble processing your question right now. Please try again or rephrase your question.'',
      llm_confidence = 0.0,
      llm_emergency = False,
      llm_raw_response = None,
      llm_error = Some ex\<rparr>"

text \<open>The prompt: the chain-of-thought template, or the plain one.\<close>

definition build_prompt :: "bool \<Rightarrow> string \<Rightarrow> string \<Rightarrow> string" where
  "build_prompt use_chain_of_thought context_text q =
     (if use_chain_of_thought
      then CHAIN_OF_THOUGHT_PROMPT context_text q
      else ''Context:'' @ nl @ context_text @ nl @ nl @
           ''Question: '' @ q @ nl @ nl @ ''Answer:'')"

text \<open>
  \<open>Llama3LLM.generate_response\<close>: the emergency check comes first and returns without
  calling the model. Otherwise the prompt is built and the model called; a failure of
  the call, the division by an empty list's length and the read of \<open>choices[0]\<close> of
  an empty list are caught and give the fixed apology with confidence 0.
\<close>

definition generate_response ::
  "env \<Rightarrow> string \<Rightarrow> chunk list \<Rightarrow> bool \<Rightarrow> world \<Rightarrow> world \<times> llm_result" where
  "generate_response e q context_chunks use_chain_of_thought w =
     (if detect_emergency_keywords q then
        (w, \<lparr>llm_response = get_emergency_response,
             llm_confidence = 1.0,
             llm_emergency = True,
             llm_raw_response = None,
             llm_error = None\<rparr>)
      else
        (let context_text = format_context context_chunks;
             prompt = build_prompt use_chain_of_thought context_text q;
             w1 = log_call (Generate prompt) w
         in case completion e prompt of
              Inl ex \<Rightarrow> (w1, generation_failed ex)
            | Inr choices \<Rightarrow>
                if context_chunks = [] then (w1, generation_failed ZeroDivisionError)
                else
                  (let avg_score = float_div e (float_sum e (map score context_chunks))
                                     (length context_chunks);
                       conf = min avg_score 1.0
                   in case choices of
                        [] \<Rightarrow> (w1, generation_failed IndexError)
                      | response_text # _ \<Rightarrow>
                          (let formatted_response = format_response response_text conf
                           in (w1, \<lparr>llm_response = formatted_response,
                                    llm_confidence = conf,
                                    llm_emergency = False,
                                    llm_raw_response = Some response_text,
                                    llm_error = None\<rparr>)))))"

section \<open>services/rag.py\<close>

record rag_result =
  rag_response :: string
  rag_sources :: "Source list"
  rag_confidence :: real
  rag_emergency :: "bool option"

text \<open>
  \<open>RAGPipeline._extract_sources\<close>: the loop over the matches with its set of seen URLs
  and its list of sources.
\<close>

fun extract_loop :: "chunk list \<Rightarrow> string set \<Rightarrow> Source list \<Rightarrow> Source list" where
  "extract_loop [] seen_urls srcs = srcs"
| "extract_loop (m # ms) seen_urls srcs =
     (let u = source_url m
      in if u \<notin> seen_urls
         then extract_loop ms (insert u seen_urls)
                (srcs @ [\<lparr>url = u, title = Some (chunk_title m), relevance_score = score m\<rparr>])
         else extract_loop ms seen_urls srcs)"

definition extract_sources :: "chunk list \<Rightarrow> Source list" where
  "extract_sources matches = extract_loop matches {} []"

definition coerce_top_k :: "pyval \<Rightarrow> py_exception + int" where
  "coerce_top_k top_k = (if truthy top_k then py_int top_k else Inr 3)"

definition no_match_answer :: rag_result where
  "no_match_answer =
     \<lparr>rag_response = ''I don't have specific information about that topic in my current knowledge base. My knowledge covers diabetes, hypertension, and related cardiovascular conditions. Please try asking about these topics, or consult a healthcare professional for information on other medical subjects.'',
      rag_sources = [],
      rag_confidence = 0.0,
      rag_emergency = None\<rparr>"

text \<open>
  \<open>RAGPipeline.query\<close>: coerce \<open>top_k\<close>, embed the query, search the index, return the
  fixed answer when nothing matched, otherwise generate and attach the sources. An
  exception of the coercion, the embedding or the search leaves the function.
\<close>

definition rag_query ::
  "env \<Rightarrow> string \<Rightarrow> pyval \<Rightarrow> string option \<Rightarrow> world \<Rightarrow> world \<times> (py_exception + rag_result)" where
  "rag_query e user_query top_k topic_filter w =
     (case coerce_top_k top_k of
        Inl ex \<Rightarrow> (w, Inl ex)
      | Inr k \<Rightarrow>
          (let w1 = log_call (Embed user_query) w
           in case create_embedding e user_query of
                Inl ex \<Rightarrow> (w1, Inl ex)
              | Inr query_embedding \<Rightarrow>
                  (case search e query_embedding k topic_filter None w1 of
                     (w2, Inl ex) \<Rightarrow> (w2, Inl ex)
                   | (w2, Inr matches) \<Rightarrow>
                       if matches = [] then (w2, Inr no_match_answer)
                       else
                         (let (w3, r) = generate_response e user_query matches True w2;
                              srcs = extract_sources matches
                          in (w3, Inr \<lparr>rag_response = llm_response r,
                                       rag_sources = srcs,
                                       rag_confidence = llm_confidence r,
                                       rag_emergency = Some (llm_emergency r)\<rparr>)))))"

section \<open>repositories/mongo_repo.py and api/routes/chat.py\<close>

definition save_query :: "query_document \<Rightarrow> world \<Rightarrow> world \<times> (py_exception + nat)" where
  "save_query doc w =
     (let w1 = log_call (SaveQuery (qd_session_id doc) (qd_user_query doc)) w
      in if \<not> mongo_up w then (w1, Inl MongoError)
         else (w1\<lparr>mongo_queries := mongo_queries w1 @ [doc]\<rparr>,
               Inr (length (mongo_queries w1))))"

text \<open>
  \<open>chat_text\<close>: look the query up in the cache and answer from it on a hit; on a miss run
  the pipeline with its default \<open>top_k = 10\<close>, save the exchange, store the answer in
  the cache and return it. Any exception becomes an HTTP 500.
\<close>

definition chat_text ::
  "env \<Rightarrow> ChatRequest \<Rightarrow> world \<Rightarrow> world \<times> (http_exception + ChatResponse)" where
  "chat_text e request w =
     (let (w1, cached_resp) = cache_get e (query request) (session_id request) w
      in case cached_resp of
           Some c \<Rightarrow>
             (w1, Inr \<lparr>response = cached_response c,
                       sources = cached_sources c,
                       confidence = cached_confidence c,
                       cached = True,
                       transcribed_query = None,
                       audio_url = None\<rparr>)
         | None \<Rightarrow>
             (case rag_query e (query request) (PyInt 10) None w1 of
                (w2, Inl ex) \<Rightarrow> (w2, Inl (HTTPException 500 ex))
              | (w2, Inr rag) \<Rightarrow>
                  (let resp = \<lparr>response = rag_response rag,
                               sources = rag_sources rag,
                               confidence = rag_confidence rag,
                               cached = False,
                               transcribed_query = None,
                               audio_url = None\<rparr>
                   in case save_query
                             \<lparr>qd_session_id = session_id request,
                              qd_user_query = query request,
                              qd_response = response resp,
                              qd_sources = sources resp,
                              qd_confidence = confidence resp,
                              qd_cached = False\<rparr> w2 of
                        (w3, Inl ex) \<Rightarrow> (w3, Inl (HTTPException 500 ex))
                      | (w3, Inr doc_id) \<Rightarrow>
                          (let cache_dict = \<lparr>cached_response = response resp,
                                             cached_sources = sources resp,
                                             cached_confidence = confidence resp\<rparr>;
                               (w4, stored) = cache_set e (query request) cache_dict
                                                (session_id request) w3
                           in (w4, Inr resp)))))"

section \<open>A concrete environment for the examples\<close>

text \<open>
  The MD5 digests of the three byte strings the examples hash; every other input is
  given the digest of the empty string, which no example relies on.
\<close>

definition example_digest :: "string \<Rightarrow> string" where
  "example_digest b =
     (if b = ''what is diabetes?:s1'' then ''832923d0e52e12eb89676993a8dfded3''
      else if b = ''i have chest pain:s1'' then ''12f7bfa14895b1e5ae3b01222a61a06c''
      else if b = ''what is gout?:s1'' then ''69964c7a1656d06d470fea158e680876''
      else ''d41d8cd98f00b204e9800998ecf8427e'')"

definition example_index :: "index_match list" where
  "example_index =
     [\<lparr>im_id = ''c1'', im_score = 0.9, md_text = ''Diabetes is a chronic disease.'',
       md_source_url = ''https://who.int/diabetes'', md_title = ''Diabetes'',
       md_topic = ''diabetes'', md_section = Some ''Overview'', md_chunk_index = Some 0\<rparr>,
      \<lparr>im_id = ''c2'', im_score = 0.7, md_text = ''Symptoms include increased thirst.'',
       md_source_url = ''https://who.int/diabetes'', md_title = ''Diabetes symptoms'',
       md_topic = ''diabetes'', md_section = None, md_chunk_index = Some 1\<rparr>,
      \<lparr>im_id = ''c3'', im_score = 0.6, md_text = ''Hypertension raises the risk.'',
       md_source_url = ''https://who.int/hypertension'', md_title = ''Hypertension'',
       md_topic = ''hypertension'', md_section = None, md_chunk_index = None\<rparr>]"

text \<open>
  Double-precision arithmetic for the examples: \<open>round_double\<close> rounds a real to the
  nearest double, ties to even (53 significant bits, least exponent \<open>-1074\<close>; no example
  comes near the overflow threshold). The sum adds from the left and rounds after each
  addition, as the interpreters before version 3.12 do; a score written in decimal stands
  for the nearest double.
\<close>

definition pow2 :: "int \<Rightarrow> real" where
  "pow2 k = (if 0 \<le> k then 2 ^ nat k else 1 / 2 ^ nat (- k))"

fun binary_exponent :: "nat \<Rightarrow> real \<Rightarrow> int \<Rightarrow> int" where
  "binary_exponent 0 x e = e"
| "binary_exponent (Suc n) x e =
     (if 2 \<le> x then binary_exponent n (x / 2) (e + 1)
      else if x < 1 then binary_exponent n (2 * x) (e - 1)
      else e)"

definition round_double :: "real \<Rightarrow> real" where
  "round_double x =
     (if x = 0 then 0
      else
        (let a = \<bar>x\<bar>;
             e = max (binary_exponent 2200 a 0) (- 1022);
             ulp = pow2 (e - 52);
             q = a / ulp;
             f = \<lfloor>q\<rfloor>;
             r = q - of_int f;
             n = (if r < 1 / 2 then f
                  else if 1 / 2 < r then f + 1
                  else if even f then f else f + 1)
         in sgn x * of_int n * ulp))"

definition example_float_sum :: "real list \<Rightarrow> real" where
  "example_float_sum xs = foldl (\<lambda>acc x. round_double (acc + round_double x)) 0 xs"

definition example_float_div :: "real \<Rightarrow> nat \<Rightarrow> real" where
  "example_float_div x n = round_double (x / real n)"

definition example_env :: "index_match list \<Rightarrow> env" where
  "example_env results =
     \<lparr>md5_hexdigest = example_digest,
      create_embedding = (\<lambda>t. Inr [0.1, 0.2, 0.3]),
      index_query = (\<lambda>v k f. Inr results),
      completion = (\<lambda>p. Inr [''Diabetes is a chronic condition.'']),
      float_sum = example_float_sum,
      float_div = example_float_div,
      CACHE_TTL = 3600,
      TOP_K_RESULTS = 5\<rparr>"

text \<open>
  Two more indexes: one whose scores lie just below the threshold in double precision,
  and one with a single match of score 1.
\<close>

definition example_index_low :: "index_match list" where
  "example_index_low =
     [\<lparr>im_id = ''g1'', im_score = 0.7, md_text = ''Gout is a form of arthritis.'',
       md_source_url = ''https://example.org/gout'', md_title = ''Gout'',
       md_topic = ''gout'', md_section = None, md_chunk_index = Some 0\<rparr>,
      \<lparr>im_id = ''g2'', im_score = 0.6, md_text = ''Uric acid crystals form in joints.'',
       md_source_url = ''https://example.org/gout'', md_title = ''Gout causes'',
       md_topic = ''gout'', md_section = None, md_chunk_index = Some 1\<rparr>,
      \<lparr>im_id = ''g3'', im_score = 0.2, md_text = ''Joints can ache for many reasons.'',
       md_source_url = ''https://example.org/joints'', md_title = ''Joint pain'',
       md_topic = ''joints'', md_section = None, md_chunk_index = None\<rparr>]"

definition example_index_exact :: "index_match list" where
  "example_index_exact =
     [\<lparr>im_id = ''e1'', im_score = 1, md_text = ''Call emergency services.'',
       md_source_url = ''https://who.int/emergency'', md_title = ''Emergency care'',
       md_topic = ''emergency'', md_section = None, md_chunk_index = Some 0\<rparr>]"

text \<open>An environment whose model answers with the text of the emergency message.\<close>

definition echo_env :: "index_match list \<Rightarrow> env" where
  "echo_env results = (example_env results)\<lparr>completion := (\<lambda>p. Inr [get_emergency_response])\<rparr>"

definition example_world :: world where
  "example_world =
     \<lparr>redis_up = True, redis_kv = Map.empty, mongo_up = True, mongo_queries = [], calls = []\<rparr>"

definition source_of :: "chunk \<Rightarrow> Source" where
  "source_of m = \<lparr>url = source_url m, title = Some (chunk_title m), relevance_score = score m\<rparr>"

text \<open>The \<open>top_k\<close> that \<open>VectorDatabase.search\<close> passes to the index.\<close>

definition effective_top_k :: "env \<Rightarrow> int \<Rightarrow> int" where
  "effective_top_k e k = (if k \<noteq> 0 then k else TOP_K_RESULTS e)"

text \<open>The response and the cached dictionary that \<open>chat_text\<close> builds from a pipeline result.\<close>

definition response_of_rag :: "rag_result \<Rightarrow> ChatResponse" where
  "response_of_rag rag =
     \<lparr>response = rag_response rag, sources = rag_sources rag, confidence = rag_confidence rag,
      cached = False, transcribed_query = None, audio_url = None\<rparr>"

definition cache_dict_of :: "ChatResponse \<Rightarrow> cache_data" where
  "cache_dict_of resp =
     \<lparr>cached_response = response resp, cached_sources = sources resp,
      cached_confidence = confidence resp\<rparr>"


section \<open>Facts about the string operations\<close>

lemma str_in_iff: "str_in k s \<longleftrightarrow> (\<exists>p u. s = p @ k @ u)"
proof (induction s)
  case Nil
  then show ?case by auto
next
  case (Cons c cs)
  show ?case
  proof
    assume "str_in k (c # cs)"
    then consider "prefix k (c # cs)" | "str_in k cs" by auto
    then show "\<exists>p u. c # cs = p @ k @ u"
    proof cases
      case 1
      then obtain u where "c # cs = k @ u" by (auto simp: prefix_def)
      then have "c # cs = [] @ k @ u" by simp
      then show ?thesis by blast
    next
      case 2
      with Cons.IH obtain p u where "cs = p @ k @ u" by blast
      then have "c # cs = (c # p) @ k @ u" by simp
      then show ?thesis by blast
    qed
  next
    assume "\<exists>p u. c # cs = p @ k @ u"
    then obtain p u where pu: "c # cs = p @ k @ u" by blast
    show "str_in k (c # cs)"
    proof (cases p)
      case Nil
      with pu have "prefix k (c # cs)" by (simp add: prefix_def)
      then show ?thesis by simp
    next
      case (Cons d p')
      with pu have "cs = p' @ k @ u" by simp
      with Cons.IH have "str_in k cs" by blast
      then show ?thesis by simp
    qed
  qed
qed

lemma str_in_extend: "str_in k s \<Longrightarrow> str_in k (p @ s @ u)"
proof -
  assume "str_in k s"
  then obtain p' u' where "s = p' @ k @ u'" by (auto simp: str_in_iff)
  then have "p @ s @ u = (p @ p') @ k @ (u' @ u)" by simp
  then show ?thesis unfolding str_in_iff by blast
qed

lemma lower_append: "lower (a @ b) = lower a @ lower b"
  by (simp add: lower_def)

section \<open>Emergency detection\<close>

text \<open>
  C10. Emergency detection is closed under extending the query: when
  \<open>detect_emergency_keywords q\<close> holds, it holds of \<open>p + q + s\<close> for all strings
  \<open>p\<close> and \<open>s\<close>; so any query that contains the word "emergency" is detected.
\<close>

theorem detect_emergency_extension:
  "(detect_emergency_keywords q \<longrightarrow> detect_emergency_keywords (p @ q @ s))
   \<and> detect_emergency_keywords (p @ ''emergency'' @ s)"
proof -
  have ext: "detect_emergency_keywords q' \<Longrightarrow> detect_emergency_keywords (p @ q' @ s)" for q'
    unfolding detect_emergency_keywords_def Let_def list_ex_iff lower_append
    by (blast intro: str_in_extend)
  have "detect_emergency_keywords ''emergency''"
    by (simp add: detect_emergency_keywords_def emergency_keywords_def lower_def lower_char_def)
  with ext show ?thesis by blast
qed

theorem detect_emergency_extension_witness:
  "detect_emergency_keywords ''chest pain''
   \<and> detect_emergency_keywords (''I have '' @ ''chest pain'' @ '' since noon'')"
proof -
  have h: "detect_emergency_keywords ''chest pain''"
    by (simp add: detect_emergency_keywords_def emergency_keywords_def lower_def lower_char_def)
  with detect_emergency_extension [of "''chest pain''" "''I have ''" "'' since noon''"]
  show ?thesis by blast
qed

section \<open>The cache key\<close>

lemma isspace_lower_char: "isspace c \<Longrightarrow> lower_char c = c"
  by (auto simp: isspace_def lower_char_def Let_def)

lemma lower_spaces: "\<forall>c \<in> set a. isspace c \<Longrightarrow> lower a = a"
  by (induction a) (auto simp: lower_def isspace_lower_char)

lemma strip_pad:
  assumes a: "\<forall>c \<in> set a. isspace c" and b: "\<forall>c \<in> set b. isspace c"
  shows "strip (a @ x @ b) = strip x"
proof -
  have front: "dropWhile isspace (a @ x @ b) = dropWhile isspace (x @ b)"
    by (rule dropWhile_append2) (use a in auto)
  show ?thesis
  proof (cases "\<forall>c \<in> set x. isspace c")
    case True
    then have h1: "dropWhile isspace x = []" by simp
    from True b have h2: "dropWhile isspace (x @ b) = []" by auto
    have "strip x = []" unfolding strip_def h1 by simp
    moreover have "strip (a @ x @ b) = []" unfolding strip_def front h2 by simp
    ultimately show ?thesis by simp
  next
    case False
    then obtain c where "c \<in> set x" "\<not> isspace c" by blast
    then have mid: "dropWhile isspace (x @ b) = dropWhile isspace x @ b"
      by (simp add: dropWhile_append1)
    have "dropWhile isspace (rev b @ rev (dropWhile isspace x))
            = dropWhile isspace (rev (dropWhile isspace x))"
      by (rule dropWhile_append2) (use b in auto)
    then show ?thesis unfolding strip_def front mid by simp
  qed
qed

text \<open>
  C5. The cache key is a function of the normalised query and the session: the same
  arguments give the same key, \<open>key(" Q ", s) = key("q", s)\<close>, two queries with the same
  lower-cased, stripped text and the same session have the same key, and neither a change
  of case nor whitespace around the query changes the key.
\<close>

theorem cache_key_normalised:
  "generate_key e q sid = generate_key e q sid
   \<and> generate_key e '' Q '' sid = generate_key e ''q'' sid
   \<and> (strip (lower q) = strip (lower q') \<longrightarrow> generate_key e q sid = generate_key e q' sid)
   \<and> ((\<forall>c \<in> set a \<union> set b. isspace c) \<and> lower q = lower q'
        \<longrightarrow> generate_key e (a @ q @ b) sid = generate_key e q' sid)"
proof -
  have "strip (lower '' Q '') = ''q''" by code_simp
  moreover have "strip (lower ''q'') = ''q''" by code_simp
  ultimately have ex: "generate_key e '' Q '' sid = generate_key e ''q'' sid"
    by (simp add: generate_key_def)
  have nf: "generate_key e q sid = generate_key e q' sid"
    if "strip (lower q) = strip (lower q')"
    using that by (simp add: generate_key_def)
  have pad: "generate_key e (a @ q @ b) sid = generate_key e q' sid"
    if sp: "\<forall>c \<in> set a \<union> set b. isspace c" and lo: "lower q = lower q'"
  proof -
    from sp have a: "\<forall>c \<in> set a. isspace c" and b: "\<forall>c \<in> set b. isspace c" by auto
    have "lower (a @ q @ b) = a @ lower q' @ b"
      by (simp add: lower_append lower_spaces a b lo)
    then have "strip (lower (a @ q @ b)) = strip (lower q')"
      by (simp add: strip_pad a b)
    then show ?thesis by (simp add: generate_key_def)
  qed
  from ex nf pad show ?thesis by blast
qed

theorem cache_key_normalised_witness:
  "list_all isspace (''  '' @ [CHR 0x0A])
   \<and> lower ''What Is Diabetes?'' = lower ''what is DIABETES?''
   \<and> strip (lower ''Q '') = strip (lower '' q'')
   \<and> generate_key (example_env []) (''  '' @ ''What Is Diabetes?'' @ [CHR 0x0A]) ''s1''
       = generate_key (example_env []) ''what is DIABETES?'' ''s1''
   \<and> generate_key (example_env []) ''Q '' ''s1'' = generate_key (example_env []) '' q'' ''s1''"
proof -
  have h0: "list_all isspace (''  '' @ [CHR 0x0A])"
    by (simp add: isspace_def)
  then have h1: "\<forall>c \<in> set ''  '' \<union> set [CHR 0x0A]. isspace c"
    by simp
  have h2: "lower ''What Is Diabetes?'' = lower ''what is DIABETES?''"
    by code_simp
  have h3: "strip (lower ''Q '') = strip (lower '' q'')"
    by code_simp
  from h0 h1 h2 h3
    cache_key_normalised [of "example_env []" "''What Is Diabetes?''" "''s1''"
      "''what is DIABETES?''" "''  ''" "[CHR 0x0A]"]
    cache_key_normalised [of "example_env []" "''Q ''" "''s1''" "'' q''"]
  show ?thesis by blast
qed

lemma stringmatch_star:
  "stringmatch (CHR ''*'' # p) s \<Longrightarrow> \<exists>s1 s2. s = s1 @ s2 \<and> stringmatch p s2"
proof (induction s)
  case Nil
  then show ?case by simp
next
  case (Cons x s)
  then consider "stringmatch p (x # s)" | "stringmatch (CHR ''*'' # p) s" by auto
  then show ?case
  proof cases
    case 1
    then have "x # s = [] @ (x # s) \<and> stringmatch p (x # s)" by simp
    then show ?thesis by blast
  next
    case 2
    with Cons.IH obtain s1 s2 where "s = s1 @ s2" "stringmatch p s2" by blast
    then have "x # s = (x # s1) @ s2 \<and> stringmatch p s2" by simp
    then show ?thesis by blast
  qed
qed

lemma stringmatch_colon:
  "stringmatch (CHR '':'' # p) s \<Longrightarrow> CHR '':'' \<in> set s"
  by (cases s) (auto split: if_splits)

lemma session_pattern_needs_colon:
  assumes "stringmatch (''chat:*:'' @ sid) (''chat:'' @ d)"
  shows "CHR '':'' \<in> set d"
proof -
  from assms have "stringmatch (CHR ''*'' # CHR '':'' # sid) d" by simp
  from stringmatch_star [OF this] obtain s1 s2 where
    d: "d = s1 @ s2" and m: "stringmatch (CHR '':'' # sid) s2" by blast
  from stringmatch_colon [OF m] d show ?thesis by simp
qed

lemma generated_key_survives:
  assumes hex: "CHR '':'' \<notin> set (md5_hexdigest e (encode (strip (lower q) @ '':'' @ sid)))"
  shows "generate_key e q sid \<notin> redis_keys (''chat:*:'' @ sid') w"
  using hex session_pattern_needs_colon
  by (auto simp: redis_keys_def generate_key_def)


text \<open>
  C4 asks that after \<open>clear_session(s)\<close> no entry stored for \<open>(q, s)\<close> can be read
  back. The keys are \<open>chat:\<close> followed by a hexadecimal digest, which holds no colon,
  so the pattern \<open>chat:*:<session_id>\<close> matches none of them: an entry stored for
  \<open>(q, s)\<close> is still returned by \<open>get(q, s)\<close> after \<open>clear_session(s)\<close> has
  returned \<open>True\<close>.
\<close>

theorem clear_session_misses_generated_keys:
  assumes hex: "\<forall>b. CHR '':'' \<notin> set (md5_hexdigest e b)" and up: "redis_up w"
  shows "\<exists>w1 w2 w3. cache_set e q v sid w = (w1, True)
           \<and> clear_session sid w1 = (w2, True)
           \<and> cache_get e q sid w2 = (w3, Some v)"
proof -
  let ?k = "generate_key e q sid"
  let ?p = "''chat:*:'' @ sid"
  define w1 where "w1 = (log_call (CacheSetex ?k) w)\<lparr>redis_kv := (redis_kv w)(?k \<mapsto> (CACHE_TTL e, v))\<rparr>"
  have s1: "cache_set e q v sid w = (w1, True)"
    using up by (simp add: cache_set_def w1_def Let_def log_call_def)
  have up1: "redis_up w1" and kv1: "redis_kv w1 ?k = Some (CACHE_TTL e, v)"
    using up by (simp_all add: w1_def log_call_def)
  have notin: "?k \<notin> redis_keys ?p w'" for w'
    using hex by (intro generated_key_survives) simp
  obtain w2 where s2: "clear_session sid w1 = (w2, True)"
    and up2: "redis_up w2" and kv2: "redis_kv w2 ?k = redis_kv w1 ?k"
  proof (cases "redis_keys ?p (log_call (CacheKeys ?p) w1) = {}")
    case True
    show ?thesis
      by (rule that [of "log_call (CacheKeys ?p) w1"])
         (use up1 True in \<open>simp_all add: clear_session_def Let_def log_call_def\<close>)
  next
    case False
    show ?thesis
      by (rule that [of "redis_delete (redis_keys ?p (log_call (CacheKeys ?p) w1))
                           (log_call CacheDelete (log_call (CacheKeys ?p) w1))"])
         (use up1 False notin in
            \<open>simp_all add: clear_session_def Let_def log_call_def redis_delete_def restrict_map_def\<close>)
  qed
  have s3: "cache_get e q sid w2 = (log_call (CacheGet ?k) w2, Some v)"
    using up2 kv2 kv1 by (simp add: cache_get_def Let_def)
  from s1 s2 s3 show ?thesis by blast
qed

theorem clear_session_misses_generated_keys_witness:
  "(\<forall>b. CHR '':'' \<notin> set (md5_hexdigest (example_env []) b)) \<and> redis_up example_world
   \<and> (\<exists>w1 w2 w3.
         cache_set (example_env []) ''What is diabetes?''
           \<lparr>cached_response = ''Diabetes is a chronic condition.'', cached_sources = [],
            cached_confidence = 0.9\<rparr> ''s1'' example_world = (w1, True)
         \<and> clear_session ''s1'' w1 = (w2, True)
         \<and> cache_get (example_env []) ''What is diabetes?'' ''s1'' w2
             = (w3, Some \<lparr>cached_response = ''Diabetes is a chronic condition.'',
                          cached_sources = [], cached_confidence = 0.9\<rparr>))"
proof -
  have h1: "\<forall>b. CHR '':'' \<notin> set (md5_hexdigest (example_env []) b)"
    by (simp add: example_env_def example_digest_def)
  have h2: "redis_up example_world"
    by (simp add: example_world_def)
  from clear_session_misses_generated_keys [OF h1 h2] h1 h2 show ?thesis by blast
qed

section \<open>Source extraction\<close>

lemma first_occurrences_Cons:
  "rev (remdups (rev (u # us))) = u # filter (\<lambda>x. x \<noteq> u) (rev (remdups (rev us)))"
proof -
  have "remdups (xs @ [u]) = remdups (filter (\<lambda>x. x \<noteq> u) xs) @ [u]" for xs
    by (induction xs) auto
  then have "remdups (rev us @ [u]) = remdups (filter (\<lambda>x. x \<noteq> u) (rev us)) @ [u]" .
  then show ?thesis
    by (simp add: remdups_filter rev_filter)
qed

lemma extract_loop_urls:
  "map url (extract_loop ms seen srcs) =
     map url srcs @ filter (\<lambda>u. u \<notin> seen) (rev (remdups (rev (map source_url ms))))"
proof (induction ms arbitrary: seen srcs)
  case Nil
  then show ?case by simp
next
  case (Cons m ms)
  let ?u = "source_url m"
  let ?F = "rev (remdups (rev (map source_url ms)))"
  have unfold: "rev (remdups (rev (map source_url (m # ms)))) = ?u # filter (\<lambda>x. x \<noteq> ?u) ?F"
    using first_occurrences_Cons [of ?u "map source_url ms"] by simp
  show ?case
  proof (cases "?u \<in> seen")
    case True
    have "filter (\<lambda>x. x \<notin> seen) (filter (\<lambda>x. x \<noteq> ?u) ?F) = filter (\<lambda>x. x \<notin> seen) ?F"
      using True by (auto intro: filter_cong)
    with True show ?thesis
      unfolding unfold by (simp add: Cons.IH Let_def)
  next
    case False
    have "filter (\<lambda>x. x \<notin> insert ?u seen) ?F
            = filter (\<lambda>x. x \<notin> seen) (filter (\<lambda>x. x \<noteq> ?u) ?F)"
      by (auto intro: filter_cong)
    with False show ?thesis
      unfolding unfold by (simp add: Cons.IH Let_def)
  qed
qed

lemma extract_loop_origin:
  "s \<in> set (extract_loop ms seen srcs) \<Longrightarrow>
     s \<in> set srcs \<or>
     (url s \<notin> seen \<and> (\<exists>m. find (\<lambda>m. source_url m = url s) ms = Some m \<and> s = source_of m))"
proof (induction ms arbitrary: seen srcs)
  case Nil
  then show ?case by simp
next
  case (Cons m ms)
  show ?case
  proof (cases "source_url m \<in> seen")
    case True
    with Cons.prems have "s \<in> set (extract_loop ms seen srcs)" by (simp add: Let_def)
    from Cons.IH [OF this] True show ?thesis by auto
  next
    case False
    with Cons.prems have
      "s \<in> set (extract_loop ms (insert (source_url m) seen) (srcs @ [source_of m]))"
      by (simp add: source_of_def Let_def)
    from Cons.IH [OF this] False show ?thesis
      by (auto simp: source_of_def)
  qed
qed

lemma find_first_sorted:
  "sorted_wrt R ms \<Longrightarrow> find P ms = Some m \<Longrightarrow> m' \<in> set ms \<Longrightarrow> P m' \<Longrightarrow> m' = m \<or> R m m'"
  by (induction ms) (auto split: if_splits)

text \<open>
  C6. For every list of retrieved chunks, the sources returned by \<open>_extract_sources\<close>
  have pairwise distinct URLs, are at most as many as the chunks, list the distinct URLs in
  the order of their first occurrence, and take title and score from the first chunk with
  that URL; when the chunks are sorted by descending score, that score is the greatest among
  the chunks with that URL.
\<close>

theorem extract_sources_dedup:
  "distinct (map url (extract_sources ms))
   \<and> length (extract_sources ms) \<le> length ms
   \<and> map url (extract_sources ms) = rev (remdups (rev (map source_url ms)))
   \<and> (\<forall>s \<in> set (extract_sources ms).
        \<exists>m. find (\<lambda>m. source_url m = url s) ms = Some m
           \<and> relevance_score s = score m \<and> title s = Some (chunk_title m))
   \<and> (sorted_wrt (\<lambda>a b. score b \<le> score a) ms \<longrightarrow>
        (\<forall>s \<in> set (extract_sources ms). \<forall>m \<in> set ms.
           source_url m = url s \<longrightarrow> score m \<le> relevance_score s))"
proof -
  have urls: "map url (extract_sources ms) = rev (remdups (rev (map source_url ms)))"
    by (simp add: extract_sources_def extract_loop_urls)
  have dist: "distinct (map url (extract_sources ms))"
    unfolding urls by simp
  have "length (map url (extract_sources ms)) \<le> length (rev (map source_url ms))"
    unfolding urls using length_remdups_leq [of "rev (map source_url ms)"] by simp
  then have len: "length (extract_sources ms) \<le> length ms" by simp
  have origin: "\<exists>m. find (\<lambda>m. source_url m = url s) ms = Some m \<and> s = source_of m"
    if "s \<in> set (extract_sources ms)" for s
    using extract_loop_origin [of s ms "{}" "[]"] that by (simp add: extract_sources_def)
  have first: "\<forall>s \<in> set (extract_sources ms).
        \<exists>m. find (\<lambda>m. source_url m = url s) ms = Some m
           \<and> relevance_score s = score m \<and> title s = Some (chunk_title m)"
  proof
    fix s assume "s \<in> set (extract_sources ms)"
    from origin [OF this] show "\<exists>m. find (\<lambda>m. source_url m = url s) ms = Some m
           \<and> relevance_score s = score m \<and> title s = Some (chunk_title m)"
      by (auto simp: source_of_def)
  qed
  have best: "score m' \<le> relevance_score s"
    if srt: "sorted_wrt (\<lambda>a b. score b \<le> score a) ms"
      and s: "s \<in> set (extract_sources ms)" and m': "m' \<in> set ms" "source_url m' = url s"
    for s m'
  proof -
    from origin [OF s] obtain m where
      m: "find (\<lambda>m. source_url m = url s) ms = Some m" "s = source_of m" by blast
    from find_first_sorted [OF srt m(1) m'(1) m'(2)] have "m' = m \<or> score m' \<le> score m" .
    then show ?thesis using m(2) by (auto simp: source_of_def)
  qed
  from urls dist len first best show ?thesis by blast
qed

theorem extract_sources_dedup_witness:
  "sorted_wrt (\<lambda>a b. score b \<le> score a) (map format_match example_index)
   \<and> map url (extract_sources (map format_match example_index))
       = [''https://who.int/diabetes'', ''https://who.int/hypertension'']
   \<and> map relevance_score (extract_sources (map format_match example_index)) = [0.9, 0.6]
   \<and> distinct (map url (extract_sources (map format_match example_index)))
   \<and> score (map format_match example_index ! 1)
       \<le> relevance_score (extract_sources (map format_match example_index) ! 0)"
proof -
  let ?ms = "map format_match example_index"
  have h: "sorted_wrt (\<lambda>a b. score b \<le> score a) ?ms"
    by (simp add: example_index_def format_match_def)
  have u: "map url (extract_sources ?ms)
       = [''https://who.int/diabetes'', ''https://who.int/hypertension'']"
    by (simp add: example_index_def format_match_def extract_sources_def)
  have r: "map relevance_score (extract_sources ?ms) = [0.9, 0.6]"
    by (simp add: example_index_def format_match_def extract_sources_def)
  have s0: "extract_sources ?ms ! 0 \<in> set (extract_sources ?ms)"
    and u0: "url (extract_sources ?ms ! 0) = ''https://who.int/diabetes''"
    by (simp_all add: example_index_def format_match_def extract_sources_def)
  have m1: "?ms ! 1 \<in> set ?ms" and u1: "source_url (?ms ! 1) = ''https://who.int/diabetes''"
    by (simp_all add: example_index_def format_match_def)
  from extract_sources_dedup [of ?ms] h have
    d: "distinct (map url (extract_sources ?ms))"
    and best: "\<forall>s \<in> set (extract_sources ?ms). \<forall>m \<in> set ?ms.
           source_url m = url s \<longrightarrow> score m \<le> relevance_score s"
    by blast+
  from u0 u1 have "source_url (?ms ! 1) = url (extract_sources ?ms ! 0)"
    by (simp only:)
  with best s0 m1 have
    "score (?ms ! 1) \<le> relevance_score (extract_sources ?ms ! 0)"
    by blast
  with h u r d show ?thesis by blast
qed

section \<open>Facts about the pipeline\<close>

lemma search_eq:
  "search e emb k tf sf w =
     (log_call (VectorSearch (effective_top_k e k)) w,
      case index_query e emb (effective_top_k e k) (build_filter tf sf) of
        Inl ex \<Rightarrow> Inl ex
      | Inr rs \<Rightarrow> Inr (map format_match rs))"
  by (simp add: search_def effective_top_k_def Let_def split: sum.splits)

lemma generate_response_emergency:
  "detect_emergency_keywords q \<Longrightarrow>
     generate_response e q ms b w =
       (w, \<lparr>llm_response = get_emergency_response, llm_confidence = 1,
            llm_emergency = True, llm_raw_response = None, llm_error = None\<rparr>)"
  by (simp add: generate_response_def)

lemma generate_response_world:
  "\<exists>evs. fst (generate_response e q ms b w) = w\<lparr>calls := calls w @ evs\<rparr>
         \<and> (\<forall>k. CacheSetex k \<notin> set evs)
         \<and> (detect_emergency_keywords q \<longrightarrow> evs = [])"
proof (cases "detect_emergency_keywords q")
  case True
  then have "fst (generate_response e q ms b w) = w\<lparr>calls := calls w @ []\<rparr>"
    by (simp add: generate_response_emergency)
  with True show ?thesis by (intro exI [of _ "[]"]) simp
next
  case False
  then have "fst (generate_response e q ms b w)
               = w\<lparr>calls := calls w @ [Generate (build_prompt b (format_context ms) q)]\<rparr>"
    by (simp add: generate_response_def Let_def log_call_def split: sum.splits list.splits)
  with False show ?thesis
    by (intro exI [of _ "[Generate (build_prompt b (format_context ms) q)]"]) simp
qed

lemma rag_query_world:
  "\<exists>evs. fst (rag_query e q top_k tf w) = w\<lparr>calls := calls w @ evs\<rparr>
         \<and> (\<forall>k. CacheSetex k \<notin> set evs)
         \<and> (detect_emergency_keywords q \<longrightarrow> (\<forall>p. Generate p \<notin> set evs))"
proof (cases "coerce_top_k top_k")
  case (Inl ex)
  then have "fst (rag_query e q top_k tf w) = w\<lparr>calls := calls w @ []\<rparr>"
    by (simp add: rag_query_def)
  then show ?thesis by fastforce
next
  case (Inr k)
  note k = this
  show ?thesis
  proof (cases "create_embedding e q")
    case (Inl ex)
    with k have "fst (rag_query e q top_k tf w) = w\<lparr>calls := calls w @ [Embed q]\<rparr>"
      by (simp add: rag_query_def Let_def log_call_def)
    then show ?thesis by fastforce
  next
    case (Inr emb)
    note emb = this
    let ?k = "effective_top_k e k"
    let ?w2 = "w\<lparr>calls := calls w @ [Embed q, VectorSearch ?k]\<rparr>"
    have w2: "log_call (VectorSearch ?k) (log_call (Embed q) w) = ?w2"
      by (simp add: log_call_def)
    show ?thesis
    proof (cases "index_query e emb ?k (build_filter tf None)")
      case (Inl ex)
      with k emb have "fst (rag_query e q top_k tf w) = ?w2"
        by (simp add: rag_query_def Let_def search_eq w2)
      then show ?thesis by fastforce
    next
      case (Inr rs)
      show ?thesis
      proof (cases "rs = []")
        case True
        with k emb Inr have "fst (rag_query e q top_k tf w) = ?w2"
          by (simp add: rag_query_def Let_def search_eq w2)
        then show ?thesis by fastforce
      next
        case False
        with k emb Inr have
          "fst (rag_query e q top_k tf w)
             = fst (generate_response e q (map format_match rs) True ?w2)"
          by (simp add: rag_query_def Let_def search_eq w2 split: prod.splits)
        moreover obtain evs where
          "fst (generate_response e q (map format_match rs) True ?w2)
             = ?w2\<lparr>calls := calls ?w2 @ evs\<rparr>"
          "\<forall>k. CacheSetex k \<notin> set evs" "detect_emergency_keywords q \<longrightarrow> evs = []"
          using generate_response_world [of e q "map format_match rs" True ?w2] by blast
        ultimately have
          "fst (rag_query e q top_k tf w)
             = w\<lparr>calls := calls w @ ([Embed q, VectorSearch ?k] @ evs)\<rparr>
           \<and> (\<forall>k. CacheSetex k \<notin> set ([Embed q, VectorSearch ?k] @ evs))
           \<and> (detect_emergency_keywords q \<longrightarrow>
                (\<forall>p. Generate p \<notin> set ([Embed q, VectorSearch ?k] @ evs)))"
          by auto
        then show ?thesis by blast
      qed
    qed
  qed
qed

lemma rag_query_no_match:
  assumes "coerce_top_k top_k = Inr k" "create_embedding e q = Inr emb"
    "index_query e emb (effective_top_k e k) (build_filter tf None) = Inr []"
  shows "rag_query e q top_k tf w =
           (w\<lparr>calls := calls w @ [Embed q, VectorSearch (effective_top_k e k)]\<rparr>,
            Inr no_match_answer)"
  using assms by (simp add: rag_query_def Let_def search_eq log_call_def)

lemma rag_query_emergency:
  assumes "detect_emergency_keywords q"
    "coerce_top_k top_k = Inr k" "create_embedding e q = Inr emb"
    "index_query e emb (effective_top_k e k) (build_filter tf None) = Inr rs" "rs \<noteq> []"
  shows "rag_query e q top_k tf w =
           (w\<lparr>calls := calls w @ [Embed q, VectorSearch (effective_top_k e k)]\<rparr>,
            Inr \<lparr>rag_response = get_emergency_response,
                 rag_sources = extract_sources (map format_match rs),
                 rag_confidence = 1,
                 rag_emergency = Some True\<rparr>)"
  using assms
  by (simp add: rag_query_def Let_def search_eq log_call_def generate_response_emergency)

lemma chat_text_hit:
  assumes "redis_up w" "redis_kv w (generate_key e (query req) (session_id req)) = Some (ttl, c)"
  shows "chat_text e req w =
           (w\<lparr>calls := calls w @ [CacheGet (generate_key e (query req) (session_id req))]\<rparr>,
            Inr \<lparr>response = cached_response c, sources = cached_sources c,
                 confidence = cached_confidence c, cached = True,
                 transcribed_query = None, audio_url = None\<rparr>)"
  using assms by (simp add: chat_text_def cache_get_def Let_def log_call_def)

lemma chat_text_miss:
  assumes miss: "\<not> redis_up w \<or> redis_kv w (generate_key e (query req) (session_id req)) = None"
  shows "chat_text e req w =
     (case rag_query e (query req) (PyInt 10) None
             (w\<lparr>calls := calls w @ [CacheGet (generate_key e (query req) (session_id req))]\<rparr>) of
        (w2, Inl ex) \<Rightarrow> (w2, Inl (HTTPException 500 ex))
      | (w2, Inr rag) \<Rightarrow>
          if \<not> mongo_up w2
          then (w2\<lparr>calls := calls w2 @ [SaveQuery (session_id req) (query req)]\<rparr>,
                Inl (HTTPException 500 MongoError))
          else
            (let w3 = w2\<lparr>mongo_queries := mongo_queries w2 @
                          [\<lparr>qd_session_id = session_id req, qd_user_query = query req,
                            qd_response = rag_response rag, qd_sources = rag_sources rag,
                            qd_confidence = rag_confidence rag, qd_cached = False\<rparr>],
                        calls := calls w2 @ [SaveQuery (session_id req) (query req),
                          CacheSetex (generate_key e (query req) (session_id req))]\<rparr>
             in (if redis_up w2
                 then w3\<lparr>redis_kv := (redis_kv w2)
                          (generate_key e (query req) (session_id req) \<mapsto>
                             (CACHE_TTL e, cache_dict_of (response_of_rag rag)))\<rparr>
                 else w3,
                 Inr (response_of_rag rag))))"
proof -
  have get: "cache_get e (query req) (session_id req) w =
          (w\<lparr>calls := calls w @ [CacheGet (generate_key e (query req) (session_id req))]\<rparr>, None)"
    using miss by (auto simp: cache_get_def Let_def log_call_def)
  show ?thesis
    unfolding chat_text_def get
    by (simp add: Let_def save_query_def cache_set_def log_call_def response_of_rag_def
          cache_dict_of_def split: prod.splits sum.splits)
qed

lemma chat_text_done:
  assumes miss: "\<not> redis_up w \<or> redis_kv w (generate_key e (query req) (session_id req)) = None"
    and rq: "rag_query e (query req) (PyInt 10) None
               (w\<lparr>calls := calls w @ [CacheGet (generate_key e (query req) (session_id req))]\<rparr>)
             = (w\<lparr>calls := calls w @ CacheGet (generate_key e (query req) (session_id req)) # evs\<rparr>,
                Inr rag)"
    and mongo: "mongo_up w"
  shows "snd (chat_text e req w) = Inr (response_of_rag rag)"
    and "calls (fst (chat_text e req w))
           = calls w @ CacheGet (generate_key e (query req) (session_id req)) # evs @
               [SaveQuery (session_id req) (query req),
                CacheSetex (generate_key e (query req) (session_id req))]"
    and "redis_kv (fst (chat_text e req w))
           = (if redis_up w
              then (redis_kv w)(generate_key e (query req) (session_id req) \<mapsto>
                      (CACHE_TTL e, cache_dict_of (response_of_rag rag)))
              else redis_kv w)"
    and "redis_up (fst (chat_text e req w)) = redis_up w"
    and "mongo_up (fst (chat_text e req w)) = mongo_up w"
  using mongo by (simp_all add: chat_text_miss [OF miss] rq Let_def)

lemma chat_text_rag_failed:
  assumes miss: "\<not> redis_up w \<or> redis_kv w (generate_key e (query req) (session_id req)) = None"
    and rq: "rag_query e (query req) (PyInt 10) None
               (w\<lparr>calls := calls w @ [CacheGet (generate_key e (query req) (session_id req))]\<rparr>)
             = (w\<lparr>calls := calls w @ CacheGet (generate_key e (query req) (session_id req)) # evs\<rparr>,
                Inl ex)"
  shows "snd (chat_text e req w) = Inl (HTTPException 500 ex)"
    and "calls (fst (chat_text e req w))
           = calls w @ CacheGet (generate_key e (query req) (session_id req)) # evs"
    and "redis_kv (fst (chat_text e req w)) = redis_kv w"
  by (simp_all add: chat_text_miss [OF miss] rq)

lemma chat_text_save_failed:
  assumes miss: "\<not> redis_up w \<or> redis_kv w (generate_key e (query req) (session_id req)) = None"
    and rq: "rag_query e (query req) (PyInt 10) None
               (w\<lparr>calls := calls w @ [CacheGet (generate_key e (query req) (session_id req))]\<rparr>)
             = (w\<lparr>calls := calls w @ CacheGet (generate_key e (query req) (session_id req)) # evs\<rparr>,
                Inr rag)"
    and mongo: "\<not> mongo_up w"
  shows "snd (chat_text e req w) = Inl (HTTPException 500 MongoError)"
    and "calls (fst (chat_text e req w))
           = calls w @ CacheGet (generate_key e (query req) (session_id req)) # evs @
               [SaveQuery (session_id req) (query req)]"
    and "redis_kv (fst (chat_text e req w)) = redis_kv w"
  using mongo by (simp_all add: chat_text_miss [OF miss] rq)

lemma rag_query_after_lookup:
  "\<exists>evs r. rag_query e q top_k tf (w\<lparr>calls := calls w @ [c]\<rparr>)
              = (w\<lparr>calls := calls w @ c # evs\<rparr>, r)
           \<and> (\<forall>k. CacheSetex k \<notin> set evs)
           \<and> (detect_emergency_keywords q \<longrightarrow> (\<forall>p. Generate p \<notin> set evs))"
proof -
  let ?w1 = "w\<lparr>calls := calls w @ [c]\<rparr>"
  from rag_query_world [of e q top_k tf ?w1] obtain evs where
    evs: "fst (rag_query e q top_k tf ?w1) = ?w1\<lparr>calls := calls ?w1 @ evs\<rparr>"
      "\<forall>k. CacheSetex k \<notin> set evs"
      "detect_emergency_keywords q \<longrightarrow> (\<forall>p. Generate p \<notin> set evs)"
    by blast
  have "rag_query e q top_k tf ?w1
          = (w\<lparr>calls := calls w @ c # evs\<rparr>, snd (rag_query e q top_k tf ?w1))"
    using evs(1) by (simp add: prod_eq_iff)
  with evs(2,3) show ?thesis by blast
qed

lemma example_keys:
  "generate_key (example_env rs) ''I have chest pain'' ''s1''
     = ''chat:12f7bfa14895b1e5ae3b01222a61a06c''"
  "generate_key (example_env rs) ''What is gout?'' ''s1''
     = ''chat:69964c7a1656d06d470fea158e680876''"
  "generate_key (example_env rs) ''What is diabetes?'' ''s1''
     = ''chat:832923d0e52e12eb89676993a8dfded3''"
proof -
  have "encode (strip (lower ''I have chest pain'') @ '':'' @ ''s1'') = ''i have chest pain:s1''"
    by code_simp
  then show "generate_key (example_env rs) ''I have chest pain'' ''s1''
     = ''chat:12f7bfa14895b1e5ae3b01222a61a06c''"
    by (simp add: generate_key_def example_env_def example_digest_def)
  have "encode (strip (lower ''What is gout?'') @ '':'' @ ''s1'') = ''what is gout?:s1''"
    by code_simp
  then show "generate_key (example_env rs) ''What is gout?'' ''s1''
     = ''chat:69964c7a1656d06d470fea158e680876''"
    by (simp add: generate_key_def example_env_def example_digest_def)
  have "encode (strip (lower ''What is diabetes?'') @ '':'' @ ''s1'') = ''what is diabetes?:s1''"
    by code_simp
  then show "generate_key (example_env rs) ''What is diabetes?'' ''s1''
     = ''chat:832923d0e52e12eb89676993a8dfded3''"
    by (simp add: generate_key_def example_env_def example_digest_def)
qed

section \<open>Empty retrieval\<close>

text \<open>
  C7. When the vector search returns an empty list, the pipeline does not call the
  generation model and returns, as a normal result and not as an error, the fixed
  "no relevant information" answer, whose confidence is exactly 0.0 and whose source list
  is empty: the only calls made are the embedding and the vector search.
\<close>

theorem empty_retrieval_no_generation:
  assumes "coerce_top_k top_k = Inr k"
    and "create_embedding e q = Inr emb"
    and "index_query e emb (effective_top_k e k) (build_filter tf None) = Inr []"
  shows "\<exists>w' evs. rag_query e q top_k tf w = (w', Inr no_match_answer)
           \<and> calls w' = calls w @ evs
           \<and> evs = [Embed q, VectorSearch (effective_top_k e k)]
           \<and> (\<forall>p. Generate p \<notin> set evs)
           \<and> rag_confidence no_match_answer = 0
           \<and> rag_sources no_match_answer = []"
proof -
  let ?w' = "w\<lparr>calls := calls w @ [Embed q, VectorSearch (effective_top_k e k)]\<rparr>"
  have "rag_query e q top_k tf w = (?w', Inr no_match_answer)"
    using assms by (rule rag_query_no_match)
  moreover have "calls ?w' = calls w @ [Embed q, VectorSearch (effective_top_k e k)]"
    by simp
  moreover have "\<forall>p. Generate p \<notin> set [Embed q, VectorSearch (effective_top_k e k)]"
    by simp
  moreover have "rag_confidence no_match_answer = 0" "rag_sources no_match_answer = []"
    by (simp_all add: no_match_answer_def)
  ultimately show ?thesis by blast
qed

theorem empty_retrieval_no_generation_witness:
  "coerce_top_k (PyInt 10) = Inr 10
   \<and> create_embedding (example_env []) ''What is gout?'' = Inr [0.1, 0.2, 0.3]
   \<and> index_query (example_env []) [0.1, 0.2, 0.3] (effective_top_k (example_env []) 10)
        (build_filter None None) = Inr []
   \<and> (\<exists>w'. rag_query (example_env []) ''What is gout?'' (PyInt 10) None example_world
               = (w', Inr no_match_answer)
           \<and> calls w' = calls example_world @ [Embed ''What is gout?'', VectorSearch 10])
   \<and> rag_confidence no_match_answer = 0"
proof -
  have h1: "coerce_top_k (PyInt 10) = Inr 10"
    by (simp add: coerce_top_k_def)
  have h2: "create_embedding (example_env []) ''What is gout?'' = Inr [0.1, 0.2, 0.3]"
    by (simp add: example_env_def)
  have h3: "index_query (example_env []) [0.1, 0.2, 0.3] (effective_top_k (example_env []) 10)
        (build_filter None None) = Inr []"
    by (simp add: example_env_def)
  have k: "effective_top_k (example_env []) 10 = 10"
    by (simp add: effective_top_k_def)
  from empty_retrieval_no_generation [OF h1 h2 h3, of example_world] h1 h2 h3
  show ?thesis unfolding k by blast
qed

section \<open>The emergency answer\<close>

lemma extract_sources_nonempty: "ms \<noteq> [] \<Longrightarrow> extract_sources ms \<noteq> []"
proof -
  assume "ms \<noteq> []"
  then have "map source_url ms \<noteq> []" by simp
  then have "rev (remdups (rev (map source_url ms))) \<noteq> []"
    by (metis remdups_eq_nil_iff rev_is_Nil_conv)
  then show ?thesis
    by (metis extract_loop_urls extract_sources_def append_Nil filter_True empty_iff list.map_disc_iff list.simps(8))
qed

lemma rag_query_generated:
  assumes "\<not> detect_emergency_keywords q"
    and "coerce_top_k top_k = Inr k" and "create_embedding e q = Inr emb"
    and "index_query e emb (effective_top_k e k) (build_filter tf None) = Inr rs"
    and "rs \<noteq> []"
    and "completion e (build_prompt True (format_context (map format_match rs)) q)
           = Inr (txt # others)"
  shows "rag_query e q top_k tf w =
           (w\<lparr>calls := calls w @
                 [Embed q, VectorSearch (effective_top_k e k),
                  Generate (build_prompt True (format_context (map format_match rs)) q)]\<rparr>,
            Inr \<lparr>rag_response =
                   format_response txt
                     (min (float_div e (float_sum e (map score (map format_match rs)))
                            (length (map format_match rs))) 1),
                 rag_sources = extract_sources (map format_match rs),
                 rag_confidence =
                   min (float_div e (float_sum e (map score (map format_match rs)))
                          (length (map format_match rs))) 1,
                 rag_emergency = Some False\<rparr>)"
  using assms
  by (simp add: rag_query_def Let_def search_eq log_call_def generate_response_def)

lemma chat_text_done_saved:
  assumes miss: "\<not> redis_up w \<or> redis_kv w (generate_key e (query req) (session_id req)) = None"
    and rq: "rag_query e (query req) (PyInt 10) None
               (w\<lparr>calls := calls w @ [CacheGet (generate_key e (query req) (session_id req))]\<rparr>)
             = (w\<lparr>calls := calls w @ CacheGet (generate_key e (query req) (session_id req)) # evs\<rparr>,
                Inr rag)"
    and mongo: "mongo_up w"
  shows "mongo_queries (fst (chat_text e req w))
           = mongo_queries w @
               [\<lparr>qd_session_id = session_id req, qd_user_query = query req,
                 qd_response = rag_response rag, qd_sources = rag_sources rag,
                 qd_confidence = rag_confidence rag, qd_cached = False\<rparr>]"
  using mongo by (simp add: chat_text_miss [OF miss] rq Let_def)

lemma echo_env_fields:
  "md5_hexdigest (echo_env rs) = md5_hexdigest (example_env rs)"
  "create_embedding (echo_env rs) t = Inr [0.1, 0.2, 0.3]"
  "index_query (echo_env rs) v k f = Inr rs"
  "completion (echo_env rs) p = Inr [get_emergency_response]"
  "float_sum (echo_env rs) = example_float_sum"
  "float_div (echo_env rs) = example_float_div"
  "TOP_K_RESULTS (echo_env rs) = 5"
  by (simp_all add: echo_env_def example_env_def)

lemma echo_env_keys:
  "generate_key (echo_env rs) q sid = generate_key (example_env rs) q sid"
  by (simp add: generate_key_def echo_env_fields)

text \<open>
  C2 asks for an empty source list on the emergency answer and for an emergency flag that
  tells it apart at the returned interface. The emergency check sits in
  \<open>generate_response\<close>, which \<open>RAGPipeline.query\<close> reaches only with a non-empty
  retrieval, and the sources of that retrieval are attached to the answer: for
  "I have chest pain" the answer carries a source. The flag is set in the result of
  \<open>RAGPipeline.query\<close> only; \<open>ChatResponse\<close> has no field for it, and over a model that
  answers "What is diabetes?" with the same text, \<open>chat_text\<close> returns the same response
  for the emergency query and for the other one.
\<close>

theorem emergency_answer_interface_counterexample:
  "detect_emergency_keywords ''I have chest pain''
   \<and> \<not> detect_emergency_keywords ''What is diabetes?''
   \<and> snd (rag_query (echo_env example_index_exact) ''I have chest pain'' (PyInt 10) None
             example_world)
       = Inr \<lparr>rag_response = get_emergency_response,
              rag_sources = [\<lparr>url = ''https://who.int/emergency'',
                              title = Some ''Emergency care'', relevance_score = 1\<rparr>],
              rag_confidence = 1,
              rag_emergency = Some True\<rparr>
   \<and> snd (rag_query (echo_env example_index_exact) ''What is diabetes?'' (PyInt 10) None
             example_world)
       = Inr \<lparr>rag_response = get_emergency_response,
              rag_sources = [\<lparr>url = ''https://who.int/emergency'',
                              title = Some ''Emergency care'', relevance_score = 1\<rparr>],
              rag_confidence = 1,
              rag_emergency = Some False\<rparr>
   \<and> snd (chat_text (echo_env example_index_exact)
             \<lparr>query = ''I have chest pain'', session_id = ''s1''\<rparr> example_world)
       = Inr \<lparr>response = get_emergency_response,
              sources = [\<lparr>url = ''https://who.int/emergency'',
                          title = Some ''Emergency care'', relevance_score = 1\<rparr>],
              confidence = 1, cached = False,
              transcribed_query = None, audio_url = None\<rparr>
   \<and> snd (chat_text (echo_env example_index_exact)
             \<lparr>query = ''What is diabetes?'', session_id = ''s1''\<rparr> example_world)
       = Inr \<lparr>response = get_emergency_response,
              sources = [\<lparr>url = ''https://who.int/emergency'',
                          title = Some ''Emergency care'', relevance_score = 1\<rparr>],
              confidence = 1, cached = False,
              transcribed_query = None, audio_url = None\<rparr>"
proof -
  let ?e = "echo_env example_index_exact"
  let ?src = "[\<lparr>url = ''https://who.int/emergency'', title = Some ''Emergency care'',
                relevance_score = 1\<rparr>]"
  let ?ms = "map format_match example_index_exact"
  have d1: "detect_emergency_keywords ''I have chest pain''"
    by code_simp
  have d2: "\<not> detect_emergency_keywords ''What is diabetes?''"
    by code_simp
  have k: "coerce_top_k (PyInt 10) = Inr 10"
    by (simp add: coerce_top_k_def)
  have ek: "effective_top_k ?e 10 = 10"
    by (simp add: effective_top_k_def)
  have ne: "example_index_exact \<noteq> []"
    by (simp add: example_index_exact_def)
  have srcs: "extract_sources ?ms = ?src"
    by (simp add: example_index_exact_def format_match_def extract_sources_def)
  have one: "min (example_float_div (example_float_sum [1]) 1) 1 = 1"
    by code_simp
  have l: "map score ?ms = [1]" and n: "length ?ms = 1"
    by (simp_all add: example_index_exact_def format_match_def)
  have conf: "min (float_div ?e (float_sum ?e (map score ?ms)) (length ?ms)) 1 = 1"
    unfolding echo_env_fields l n by (rule one)
  have fr: "format_response get_emergency_response 1 = get_emergency_response"
    by (simp add: format_response_def)
  have rq1: "rag_query ?e ''I have chest pain'' (PyInt 10) None w
       = (w\<lparr>calls := calls w @ [Embed ''I have chest pain'', VectorSearch 10]\<rparr>,
          Inr \<lparr>rag_response = get_emergency_response, rag_sources = ?src,
               rag_confidence = 1, rag_emergency = Some True\<rparr>)" for w
    using rag_query_emergency [OF d1 k, of ?e "[0.1, 0.2, 0.3]" None example_index_exact w] ne
    by (simp add: echo_env_fields ek srcs)
  have g: "rag_query ?e ''What is diabetes?'' (PyInt 10) None w
       = (w\<lparr>calls := calls w @
              [Embed ''What is diabetes?'', VectorSearch (effective_top_k ?e 10),
               Generate (build_prompt True (format_context ?ms) ''What is diabetes?'')]\<rparr>,
          Inr \<lparr>rag_response =
                 format_response get_emergency_response
                   (min (float_div ?e (float_sum ?e (map score ?ms)) (length ?ms)) 1),
               rag_sources = extract_sources ?ms,
               rag_confidence = min (float_div ?e (float_sum ?e (map score ?ms)) (length ?ms)) 1,
               rag_emergency = Some False\<rparr>)" for w
    by (rule rag_query_generated [OF d2 k, of _ "[0.1, 0.2, 0.3]" _ _ _ "[]"])
       (simp_all add: echo_env_fields ne)
  have rq2: "\<exists>evs. rag_query ?e ''What is diabetes?'' (PyInt 10) None w
       = (w\<lparr>calls := calls w @ evs\<rparr>,
          Inr \<lparr>rag_response = get_emergency_response, rag_sources = ?src,
               rag_confidence = 1, rag_emergency = Some False\<rparr>)" for w
    by (intro exI) (rule g [unfolded conf fr srcs])
  have miss: "\<not> redis_up example_world
        \<or> redis_kv example_world (generate_key ?e (query r) (session_id r)) = None" for r
    by (simp add: example_world_def)
  have mongo: "mongo_up example_world"
    by (simp add: example_world_def)
  let ?r1 = "\<lparr>query = ''I have chest pain'', session_id = ''s1''\<rparr>"
  let ?r2 = "\<lparr>query = ''What is diabetes?'', session_id = ''s1''\<rparr>"
  have a: "snd (rag_query ?e ''I have chest pain'' (PyInt 10) None example_world)
       = Inr \<lparr>rag_response = get_emergency_response, rag_sources = ?src,
              rag_confidence = 1, rag_emergency = Some True\<rparr>"
    by (simp add: rq1)
  have b: "snd (rag_query ?e ''What is diabetes?'' (PyInt 10) None example_world)
       = Inr \<lparr>rag_response = get_emergency_response, rag_sources = ?src,
              rag_confidence = 1, rag_emergency = Some False\<rparr>"
    using rq2 [of example_world] by auto
  have c: "snd (chat_text ?e ?r1 example_world)
       = Inr \<lparr>response = get_emergency_response, sources = ?src, confidence = 1,
              cached = False, transcribed_query = None, audio_url = None\<rparr>"
  proof -
    have "rag_query ?e (query ?r1) (PyInt 10) None
            (example_world\<lparr>calls := calls example_world @
                [CacheGet (generate_key ?e (query ?r1) (session_id ?r1))]\<rparr>)
          = (example_world\<lparr>calls := calls example_world @
                CacheGet (generate_key ?e (query ?r1) (session_id ?r1))
                  # [Embed ''I have chest pain'', VectorSearch 10]\<rparr>,
             Inr \<lparr>rag_response = get_emergency_response, rag_sources = ?src,
                  rag_confidence = 1, rag_emergency = Some True\<rparr>)"
      by (simp add: rq1)
    from chat_text_done(1) [OF miss this mongo] show ?thesis
      by (simp add: response_of_rag_def)
  qed
  have d: "snd (chat_text ?e ?r2 example_world)
       = Inr \<lparr>response = get_emergency_response, sources = ?src, confidence = 1,
              cached = False, transcribed_query = None, audio_url = None\<rparr>"
  proof -
    from rq2 [of "example_world\<lparr>calls := calls example_world @
                [CacheGet (generate_key ?e (query ?r2) (session_id ?r2))]\<rparr>"]
    obtain evs where "rag_query ?e (query ?r2) (PyInt 10) None
            (example_world\<lparr>calls := calls example_world @
                [CacheGet (generate_key ?e (query ?r2) (session_id ?r2))]\<rparr>)
          = (example_world\<lparr>calls := calls example_world @
                CacheGet (generate_key ?e (query ?r2) (session_id ?r2)) # evs\<rparr>,
             Inr \<lparr>rag_response = get_emergency_response, rag_sources = ?src,
                  rag_confidence = 1, rag_emergency = Some False\<rparr>)"
      by auto
    from chat_text_done(1) [OF miss this mongo] show ?thesis
      by (simp add: response_of_rag_def)
  qed
  from d1 d2 a b c d show ?thesis by blast
qed


text \<open>
  C2, amended. For every query on which the emergency check fires, \<open>generate_response\<close>
  returns the fixed emergency text with confidence exactly 1.0 and the emergency flag
  set, and the result of \<open>RAGPipeline.query\<close> carries that text, confidence 1.0, the flag,
  and the deduplicated sources of the retrieved chunks, which are not empty. The Answer
  that \<open>chat_text\<close> returns, the record it saves and the entry it caches carry the text,
  those sources and confidence 1.0, and no emergency flag: none of the three has a field
  for it, so the returned interface does not tell an emergency answer from another answer
  with the same text, sources and confidence.
\<close>

theorem emergency_answer_shape:
  assumes "detect_emergency_keywords q"
  shows "generate_response e q ms b w =
           (w, \<lparr>llm_response = get_emergency_response, llm_confidence = 1,
                llm_emergency = True, llm_raw_response = None, llm_error = None\<rparr>)
         \<and> (coerce_top_k top_k = Inr k \<and> create_embedding e q = Inr emb
              \<and> index_query e emb (effective_top_k e k) (build_filter tf None) = Inr rs
              \<and> rs \<noteq> [] \<longrightarrow>
            snd (rag_query e q top_k tf w) =
              Inr \<lparr>rag_response = get_emergency_response,
                   rag_sources = extract_sources (map format_match rs),
                   rag_confidence = 1,
                   rag_emergency = Some True\<rparr>
            \<and> extract_sources (map format_match rs) \<noteq> [])
         \<and> ((\<not> redis_up w \<or> redis_kv w (generate_key e q sid) = None)
              \<and> create_embedding e q = Inr emb'
              \<and> index_query e emb' 10 [] = Inr rs' \<and> rs' \<noteq> [] \<and> mongo_up w \<longrightarrow>
            snd (chat_text e \<lparr>query = q, session_id = sid\<rparr> w) =
              Inr \<lparr>response = get_emergency_response,
                   sources = extract_sources (map format_match rs'),
                   confidence = 1, cached = False,
                   transcribed_query = None, audio_url = None\<rparr>
            \<and> mongo_queries (fst (chat_text e \<lparr>query = q, session_id = sid\<rparr> w)) =
                mongo_queries w @
                  [\<lparr>qd_session_id = sid, qd_user_query = q,
                    qd_response = get_emergency_response,
                    qd_sources = extract_sources (map format_match rs'),
                    qd_confidence = 1, qd_cached = False\<rparr>]
            \<and> (redis_up w \<longrightarrow>
                 redis_kv (fst (chat_text e \<lparr>query = q, session_id = sid\<rparr> w))
                   (generate_key e q sid) =
                   Some (CACHE_TTL e,
                         \<lparr>cached_response = get_emergency_response,
                          cached_sources = extract_sources (map format_match rs'),
                          cached_confidence = 1\<rparr>)))"
proof -
  have g: "generate_response e q ms b w =
           (w, \<lparr>llm_response = get_emergency_response, llm_confidence = 1,
                llm_emergency = True, llm_raw_response = None, llm_error = None\<rparr>)"
    using assms by (rule generate_response_emergency)
  have r: "snd (rag_query e q top_k tf w) =
              Inr \<lparr>rag_response = get_emergency_response,
                   rag_sources = extract_sources (map format_match rs),
                   rag_confidence = 1,
                   rag_emergency = Some True\<rparr>
            \<and> extract_sources (map format_match rs) \<noteq> []"
    if "coerce_top_k top_k = Inr k" "create_embedding e q = Inr emb"
      "index_query e emb (effective_top_k e k) (build_filter tf None) = Inr rs" "rs \<noteq> []"
    using rag_query_emergency [OF assms that, of w]
      extract_sources_nonempty [of "map format_match rs"] that(4)
    by simp
  have c: "snd (chat_text e \<lparr>query = q, session_id = sid\<rparr> w) =
              Inr \<lparr>response = get_emergency_response,
                   sources = extract_sources (map format_match rs'),
                   confidence = 1, cached = False,
                   transcribed_query = None, audio_url = None\<rparr>
            \<and> mongo_queries (fst (chat_text e \<lparr>query = q, session_id = sid\<rparr> w)) =
                mongo_queries w @
                  [\<lparr>qd_session_id = sid, qd_user_query = q,
                    qd_response = get_emergency_response,
                    qd_sources = extract_sources (map format_match rs'),
                    qd_confidence = 1, qd_cached = False\<rparr>]
            \<and> (redis_up w \<longrightarrow>
                 redis_kv (fst (chat_text e \<lparr>query = q, session_id = sid\<rparr> w))
                   (generate_key e q sid) =
                   Some (CACHE_TTL e,
                         \<lparr>cached_response = get_emergency_response,
                          cached_sources = extract_sources (map format_match rs'),
                          cached_confidence = 1\<rparr>))"
    if miss: "\<not> redis_up w \<or> redis_kv w (generate_key e q sid) = None"
      and emb: "create_embedding e q = Inr emb'"
      and idx: "index_query e emb' 10 [] = Inr rs'" and ne: "rs' \<noteq> []"
      and mongo: "mongo_up w"
  proof -
    let ?req = "\<lparr>query = q, session_id = sid\<rparr>"
    let ?key = "generate_key e (query ?req) (session_id ?req)"
    let ?w1 = "w\<lparr>calls := calls w @ [CacheGet ?key]\<rparr>"
    let ?rag = "\<lparr>rag_response = get_emergency_response,
                rag_sources = extract_sources (map format_match rs'),
                rag_confidence = 1, rag_emergency = Some True\<rparr>"
    have k: "coerce_top_k (PyInt 10) = Inr 10"
      by (simp add: coerce_top_k_def)
    have idx': "index_query e emb' (effective_top_k e 10) (build_filter None None) = Inr rs'"
      using idx by (simp add: effective_top_k_def build_filter_def)
    have miss': "\<not> redis_up w \<or> redis_kv w ?key = None"
      using miss by simp
    have em: "detect_emergency_keywords (query ?req)"
      using assms by simp
    have emb2: "create_embedding e (query ?req) = Inr emb'"
      using emb by simp
    have rq: "rag_query e (query ?req) (PyInt 10) None ?w1
        = (w\<lparr>calls := calls w @ CacheGet ?key # [Embed (query ?req), VectorSearch 10]\<rparr>,
           Inr ?rag)"
      using rag_query_emergency [OF em k emb2 idx' ne, of ?w1]
      by (simp add: effective_top_k_def)
    note d = chat_text_done [OF miss' rq mongo]
    note s = chat_text_done_saved [OF miss' rq mongo]
    from d(1) have c1: "snd (chat_text e ?req w) =
              Inr \<lparr>response = get_emergency_response,
                   sources = extract_sources (map format_match rs'),
                   confidence = 1, cached = False,
                   transcribed_query = None, audio_url = None\<rparr>"
      by (simp add: response_of_rag_def)
    from s have c2: "mongo_queries (fst (chat_text e ?req w)) =
                mongo_queries w @
                  [\<lparr>qd_session_id = sid, qd_user_query = q,
                    qd_response = get_emergency_response,
                    qd_sources = extract_sources (map format_match rs'),
                    qd_confidence = 1, qd_cached = False\<rparr>]"
      by simp
    from d(3) have c3: "redis_up w \<longrightarrow>
                 redis_kv (fst (chat_text e ?req w)) (generate_key e q sid) =
                   Some (CACHE_TTL e,
                         \<lparr>cached_response = get_emergency_response,
                          cached_sources = extract_sources (map format_match rs'),
                          cached_confidence = 1\<rparr>)"
      by (simp add: response_of_rag_def cache_dict_of_def)
    from c1 c2 c3 show ?thesis by blast
  qed
  from g r c show ?thesis by blast
qed

theorem emergency_answer_shape_witness:
  "detect_emergency_keywords ''I have chest pain''
   \<and> coerce_top_k (PyInt 10) = Inr 10
   \<and> create_embedding (example_env example_index) ''I have chest pain'' = Inr [0.1, 0.2, 0.3]
   \<and> index_query (example_env example_index) [0.1, 0.2, 0.3]
        (effective_top_k (example_env example_index) 10) (build_filter None None)
       = Inr example_index
   \<and> index_query (example_env example_index) [0.1, 0.2, 0.3] 10 [] = Inr example_index
   \<and> example_index \<noteq> []
   \<and> redis_kv example_world
        (generate_key (example_env example_index) ''I have chest pain'' ''s1'') = None
   \<and> mongo_up example_world
   \<and> redis_up example_world
   \<and> snd (rag_query (example_env example_index) ''I have chest pain'' (PyInt 10) None
             example_world)
       = Inr \<lparr>rag_response = get_emergency_response,
              rag_sources = extract_sources (map format_match example_index),
              rag_confidence = 1,
              rag_emergency = Some True\<rparr>
   \<and> extract_sources (map format_match example_index) \<noteq> []
   \<and> snd (chat_text (example_env example_index)
             \<lparr>query = ''I have chest pain'', session_id = ''s1''\<rparr> example_world)
       = Inr \<lparr>response = get_emergency_response,
              sources = extract_sources (map format_match example_index),
              confidence = 1, cached = False,
              transcribed_query = None, audio_url = None\<rparr>
   \<and> mongo_queries (fst (chat_text (example_env example_index)
             \<lparr>query = ''I have chest pain'', session_id = ''s1''\<rparr> example_world))
       = mongo_queries example_world @
           [\<lparr>qd_session_id = ''s1'', qd_user_query = ''I have chest pain'',
             qd_response = get_emergency_response,
             qd_sources = extract_sources (map format_match example_index),
             qd_confidence = 1, qd_cached = False\<rparr>]
   \<and> redis_kv (fst (chat_text (example_env example_index)
             \<lparr>query = ''I have chest pain'', session_id = ''s1''\<rparr> example_world))
         (generate_key (example_env example_index) ''I have chest pain'' ''s1'')
       = Some (CACHE_TTL (example_env example_index),
               \<lparr>cached_response = get_emergency_response,
                cached_sources = extract_sources (map format_match example_index),
                cached_confidence = 1\<rparr>)"
proof -
  let ?e = "example_env example_index"
  have h0: "detect_emergency_keywords ''I have chest pain''"
    by code_simp
  have h1: "coerce_top_k (PyInt 10) = Inr 10"
    by (simp add: coerce_top_k_def)
  have h2: "create_embedding ?e ''I have chest pain'' = Inr [0.1, 0.2, 0.3]"
    by (simp add: example_env_def)
  have h3: "index_query ?e [0.1, 0.2, 0.3] (effective_top_k ?e 10) (build_filter None None)
       = Inr example_index"
    by (simp add: example_env_def)
  have h3': "index_query ?e [0.1, 0.2, 0.3] 10 [] = Inr example_index"
    by (simp add: example_env_def)
  have h4: "example_index \<noteq> []"
    by (simp add: example_index_def)
  have h5: "redis_kv example_world (generate_key ?e ''I have chest pain'' ''s1'') = None"
    by (simp add: example_world_def)
  have h6: "mongo_up example_world" and h7: "redis_up example_world"
    by (simp_all add: example_world_def)
  from emergency_answer_shape [OF h0, of ?e "[]" True example_world
      "PyInt 10" 10 "[0.1, 0.2, 0.3]" None example_index "''s1''" "[0.1, 0.2, 0.3]"
      example_index] h0 h1 h2 h3 h3' h4 h5 h6 h7
  show ?thesis by blast
qed

section \<open>Coercion of \<open>top_k\<close>\<close>

lemma rag_query_calls_prefix:
  assumes k: "coerce_top_k top_k = Inr k" and emb: "create_embedding e q = Inr emb"
  shows "\<exists>rest. calls (fst (rag_query e q top_k tf w))
                 = calls w @ Embed q # VectorSearch (effective_top_k e k) # rest"
proof -
  let ?k = "effective_top_k e k"
  let ?w2 = "w\<lparr>calls := calls w @ [Embed q, VectorSearch ?k]\<rparr>"
  have w2: "log_call (VectorSearch ?k) (log_call (Embed q) w) = ?w2"
    by (simp add: log_call_def)
  show ?thesis
  proof (cases "index_query e emb ?k (build_filter tf None)")
    case (Inl ex)
    with k emb have "fst (rag_query e q top_k tf w) = ?w2"
      by (simp add: rag_query_def Let_def search_eq w2)
    then show ?thesis by simp
  next
    case (Inr rs)
    show ?thesis
    proof (cases "rs = []")
      case True
      with k emb Inr have "fst (rag_query e q top_k tf w) = ?w2"
        by (simp add: rag_query_def Let_def search_eq w2)
      then show ?thesis by simp
    next
      case False
      with k emb Inr have
        "fst (rag_query e q top_k tf w)
           = fst (generate_response e q (map format_match rs) True ?w2)"
        by (simp add: rag_query_def Let_def search_eq w2 split: prod.splits)
      moreover obtain evs where
        "fst (generate_response e q (map format_match rs) True ?w2)
           = ?w2\<lparr>calls := calls ?w2 @ evs\<rparr>"
        using generate_response_world [of e q "map format_match rs" True ?w2] by blast
      ultimately have "calls (fst (rag_query e q top_k tf w))
           = calls w @ Embed q # VectorSearch ?k # evs"
        by simp
      then show ?thesis by blast
    qed
  qed
qed

lemma parse_digits_chars:
  "parse_digits cs b acc = Some i \<Longrightarrow> \<forall>c \<in> set cs. isdigit c \<or> c = CHR ''_''"
  by (induction cs arbitrary: b acc) (auto split: if_splits)

lemma dropWhile_keeps: "c \<in> set xs \<Longrightarrow> \<not> P c \<Longrightarrow> c \<in> set (dropWhile P xs)"
  by (induction xs) auto

lemma int_strip_keeps: "c \<in> set s \<Longrightarrow> \<not> int_isspace c \<Longrightarrow> c \<in> set (int_strip s)"
  by (simp add: int_strip_def dropWhile_keeps)

lemma int_of_str_non_numeric:
  assumes c: "c \<in> set s" and nd: "\<not> isdigit c"
    and ns: "c \<notin> {CHR ''+'', CHR ''-'', CHR ''_''}" and nw: "\<not> int_isspace c"
  shows "int_of_str s = Inl ValueError"
proof -
  let ?t = "int_strip s"
  from c nw have ct: "c \<in> set ?t" by (rule int_strip_keeps)
  have none: "(case ?t of
                 [] \<Rightarrow> None
               | d # cs \<Rightarrow>
                   if d = CHR ''-'' then map_option uminus (parse_digits cs False 0)
                   else if d = CHR ''+'' then parse_digits cs False 0
                   else parse_digits ?t False 0) = None"
  proof (cases ?t)
    case Nil
    with ct show ?thesis by simp
  next
    case (Cons d cs)
    have bad: "parse_digits xs False 0 = None" if "c \<in> set xs" for xs
    proof (rule ccontr)
      assume "parse_digits xs False 0 \<noteq> None"
      then obtain i where "parse_digits xs False 0 = Some i" by auto
      from parse_digits_chars [OF this] that nd ns show False by auto
    qed
    show ?thesis
    proof (cases "d = CHR ''-'' \<or> d = CHR ''+''")
      case True
      with ct Cons ns have "c \<in> set cs" by auto
      with True Cons show ?thesis by (auto simp: bad)
    next
      case False
      from ct Cons have "parse_digits (d # cs) False 0 = None" by (intro bad) simp
      with False show ?thesis unfolding Cons by (simp del: parse_digits.simps)
    qed
  qed
  show ?thesis
    unfolding int_of_str_def Let_def none by simp
qed

text \<open>
  C8 asks that every \<open>top_k\<close> is coerced to a positive integer without raising. The
  non-numeric string "abc" raises \<open>ValueError\<close>, and \<open>-5\<close> is kept as it is, so the
  vector search is invoked with \<open>-5\<close>.
\<close>

theorem top_k_coercion_counterexample:
  "coerce_top_k (PyStr ''abc'') = Inl ValueError
   \<and> coerce_top_k (PyInt (- 5)) = Inr (- 5)
   \<and> take 2 (calls (fst (rag_query (example_env example_index) ''What is diabetes?''
                           (PyInt (- 5)) None example_world)))
       = [Embed ''What is diabetes?'', VectorSearch (- 5)]"
proof -
  have a: "coerce_top_k (PyStr ''abc'') = Inl ValueError"
    by code_simp
  have b: "coerce_top_k (PyInt (- 5)) = Inr (- 5)"
    by (simp add: coerce_top_k_def)
  have emb: "create_embedding (example_env example_index) ''What is diabetes?''
               = Inr [0.1, 0.2, 0.3]"
    by (simp add: example_env_def)
  have ek: "effective_top_k (example_env example_index) (- 5) = - 5"
    by (simp add: effective_top_k_def)
  from rag_query_calls_prefix [OF b emb, of None example_world] obtain rest where
    "calls (fst (rag_query (example_env example_index) ''What is diabetes?''
                   (PyInt (- 5)) None example_world))
       = Embed ''What is diabetes?'' # VectorSearch (- 5) # rest"
    unfolding ek by (auto simp: example_world_def)
  with a b show ?thesis by simp
qed

text \<open>
  C8, amended. A \<open>top_k\<close> that Python counts as false (\<open>None\<close>, zero, an empty
  string) is replaced by the default 3. Every non-zero integer is kept as it is and
  nothing is raised: a positive one stays positive, a negative one is passed on. Every
  other value goes through \<open>int()\<close>; a string that holds a character other than a
  digit, a sign, an underscore or the whitespace \<open>int()\<close> skips raises \<open>ValueError\<close>, and
  then no collaborator is called. Whenever the coercion gives an integer \<open>k\<close> and the query
  is embedded, the vector search is invoked with \<open>k\<close> when \<open>k\<close> is not zero and with the
  configured \<open>TOP_K_RESULTS\<close> when it is.
\<close>

theorem top_k_coercion:
  "(\<not> truthy top_k \<longrightarrow> coerce_top_k top_k = Inr 3)
   \<and> (i \<noteq> 0 \<longrightarrow> coerce_top_k (PyInt i) = Inr i)
   \<and> (truthy top_k \<longrightarrow> coerce_top_k top_k = py_int top_k)
   \<and> ((\<exists>c \<in> set s. \<not> isdigit c \<and> c \<notin> {CHR ''+'', CHR ''-'', CHR ''_''} \<and> \<not> int_isspace c)
        \<longrightarrow> coerce_top_k (PyStr s) = Inl ValueError
          \<and> rag_query e q (PyStr s) tf w = (w, Inl ValueError))
   \<and> (coerce_top_k top_k = Inr k \<and> create_embedding e q = Inr emb \<longrightarrow>
        (\<exists>rest. calls (fst (rag_query e q top_k tf w))
                  = calls w @ Embed q
                      # VectorSearch (if k \<noteq> 0 then k else TOP_K_RESULTS e) # rest))"
proof -
  have a: "\<not> truthy top_k \<longrightarrow> coerce_top_k top_k = Inr 3"
    by (simp add: coerce_top_k_def)
  have b: "i \<noteq> 0 \<longrightarrow> coerce_top_k (PyInt i) = Inr i"
    by (simp add: coerce_top_k_def)
  have c: "truthy top_k \<longrightarrow> coerce_top_k top_k = py_int top_k"
    by (simp add: coerce_top_k_def)
  have d: "coerce_top_k (PyStr s) = Inl ValueError
          \<and> rag_query e q (PyStr s) tf w = (w, Inl ValueError)"
    if "\<exists>c \<in> set s. \<not> isdigit c \<and> c \<notin> {CHR ''+'', CHR ''-'', CHR ''_''} \<and> \<not> int_isspace c"
  proof -
    from that obtain c where c: "c \<in> set s" "\<not> isdigit c"
      "c \<notin> {CHR ''+'', CHR ''-'', CHR ''_''}" "\<not> int_isspace c"
      by blast
    then have "s \<noteq> []" by auto
    with int_of_str_non_numeric [OF c] have "coerce_top_k (PyStr s) = Inl ValueError"
      by (simp add: coerce_top_k_def)
    then show ?thesis by (simp add: rag_query_def)
  qed
  have f: "\<exists>rest. calls (fst (rag_query e q top_k tf w))
                  = calls w @ Embed q
                      # VectorSearch (if k \<noteq> 0 then k else TOP_K_RESULTS e) # rest"
    if k: "coerce_top_k top_k = Inr k" and emb: "create_embedding e q = Inr emb"
    using rag_query_calls_prefix [OF k emb, of tf w] by (simp add: effective_top_k_def)
  from a b c d f show ?thesis by blast
qed

theorem top_k_coercion_witness:
  "\<not> truthy PyNone \<and> coerce_top_k PyNone = Inr 3
   \<and> \<not> truthy (PyInt 0) \<and> coerce_top_k (PyInt 0) = Inr 3
   \<and> \<not> truthy (PyStr []) \<and> coerce_top_k (PyStr []) = Inr 3
   \<and> coerce_top_k (PyInt 10) = Inr 10
   \<and> coerce_top_k (PyInt (- 5)) = Inr (- 5)
   \<and> truthy (PyStr '' 7 '') \<and> coerce_top_k (PyStr '' 7 '') = Inr 7
   \<and> (\<exists>c \<in> set ''abc''. \<not> isdigit c \<and> c \<notin> {CHR ''+'', CHR ''-'', CHR ''_''}
          \<and> \<not> int_isspace c)
   \<and> coerce_top_k (PyStr ''abc'') = Inl ValueError
   \<and> rag_query (example_env []) ''What is gout?'' (PyStr ''abc'') None example_world
       = (example_world, Inl ValueError)
   \<and> coerce_top_k (PyStr [CHR 0x1F, CHR ''7'']) = Inl ValueError
   \<and> create_embedding (example_env []) ''What is gout?'' = Inr [0.1, 0.2, 0.3]
   \<and> (\<exists>rest. calls (fst (rag_query (example_env []) ''What is gout?'' (PyInt 10) None
                             example_world))
        = calls example_world @ Embed ''What is gout?'' # VectorSearch 10 # rest)
   \<and> (\<exists>rest. calls (fst (rag_query (example_env []) ''What is gout?'' (PyInt (- 5)) None
                             example_world))
        = calls example_world @ Embed ''What is gout?'' # VectorSearch (- 5) # rest)"
proof -
  let ?e = "example_env []"
  let ?q = "''What is gout?''"
  note t = top_k_coercion [where e = ?e and q = ?q and tf = None and w = example_world
      and emb = "[0.1, 0.2, 0.3]"]
  have h1: "\<not> truthy PyNone" and h2: "\<not> truthy (PyInt 0)" and h3: "\<not> truthy (PyStr [])"
    by simp_all
  have h4: "truthy (PyStr '' 7 '')" by simp
  have p7: "py_int (PyStr '' 7 '') = Inr 7" by code_simp
  have h5: "\<exists>c \<in> set ''abc''. \<not> isdigit c \<and> c \<notin> {CHR ''+'', CHR ''-'', CHR ''_''}
          \<and> \<not> int_isspace c"
    by (simp add: isdigit_def int_isspace_def)
  have h6: "\<exists>c \<in> set [CHR 0x1F, CHR ''7'']. \<not> isdigit c
          \<and> c \<notin> {CHR ''+'', CHR ''-'', CHR ''_''} \<and> \<not> int_isspace c"
    by (simp add: isdigit_def int_isspace_def)
  have h7: "create_embedding ?e ?q = Inr [0.1, 0.2, 0.3]"
    by (simp add: example_env_def)
  have c1: "coerce_top_k PyNone = Inr 3"
    using t [where top_k = PyNone] h1 by blast
  have c2: "coerce_top_k (PyInt 0) = Inr 3"
    using t [where top_k = "PyInt 0"] h2 by blast
  have c3: "coerce_top_k (PyStr []) = Inr 3"
    using t [where top_k = "PyStr []"] h3 by blast
  have c4: "coerce_top_k (PyInt 10) = Inr 10"
    using t [where i = 10] by simp
  have c5: "coerce_top_k (PyInt (- 5)) = Inr (- 5)"
    using t [where i = "- 5"] by simp
  have c6: "coerce_top_k (PyStr '' 7 '') = Inr 7"
    using t [where top_k = "PyStr '' 7 ''"] h4 p7 by simp
  have c7: "coerce_top_k (PyStr ''abc'') = Inl ValueError"
    and c8: "rag_query ?e ?q (PyStr ''abc'') None example_world = (example_world, Inl ValueError)"
    using t [where s = "''abc''"] h5 by blast+
  have c9: "coerce_top_k (PyStr [CHR 0x1F, CHR ''7'']) = Inl ValueError"
    using t [where s = "[CHR 0x1F, CHR ''7'']"] h6 by blast
  have c10: "\<exists>rest. calls (fst (rag_query ?e ?q (PyInt 10) None example_world))
        = calls example_world @ Embed ?q # VectorSearch 10 # rest"
    using t [where top_k = "PyInt 10" and k = 10] c4 h7 by simp
  have c11: "\<exists>rest. calls (fst (rag_query ?e ?q (PyInt (- 5)) None example_world))
        = calls example_world @ Embed ?q # VectorSearch (- 5) # rest"
    using t [where top_k = "PyInt (- 5)" and k = "- 5"] c5 h7 by simp
  from h1 h2 h3 h4 h5 h7 c1 c2 c3 c4 c5 c6 c7 c8 c9 c10 c11 show ?thesis by blast
qed

section \<open>Emergency queries through \<open>chat_text\<close>\<close>

text \<open>
  C1 asks that an emergency query reaches neither the cache nor the retrieval and is
  always answered with the emergency text. \<open>chat_text\<close> looks "I have chest pain" up in
  the cache first, then embeds it and searches the index; and over an empty index the
  same query is answered with the fixed no-match answer.
\<close>

theorem emergency_check_after_lookup_counterexample:
  "detect_emergency_keywords ''I have chest pain''
   \<and> calls (fst (chat_text (example_env example_index)
                    \<lparr>query = ''I have chest pain'', session_id = ''s1''\<rparr> example_world))
       = [CacheGet ''chat:12f7bfa14895b1e5ae3b01222a61a06c'',
          Embed ''I have chest pain'',
          VectorSearch 10,
          SaveQuery ''s1'' ''I have chest pain'',
          CacheSetex ''chat:12f7bfa14895b1e5ae3b01222a61a06c'']
   \<and> snd (chat_text (example_env [])
               \<lparr>query = ''I have chest pain'', session_id = ''s1''\<rparr> example_world)
       = Inr \<lparr>response = rag_response no_match_answer, sources = [], confidence = 0,
              cached = False, transcribed_query = None, audio_url = None\<rparr>"
proof -
  let ?req = "\<lparr>query = ''I have chest pain'', session_id = ''s1''\<rparr>"
  let ?key = "''chat:12f7bfa14895b1e5ae3b01222a61a06c''"
  have d: "detect_emergency_keywords ''I have chest pain''"
    by code_simp
  have k: "coerce_top_k (PyInt 10) = Inr 10"
    by (simp add: coerce_top_k_def)
  have miss: "\<not> redis_up example_world
        \<or> redis_kv example_world (generate_key (example_env rs) (query ?req) (session_id ?req)) = None"
    for rs
    by (simp add: example_world_def)
  have mongo: "mongo_up example_world"
    by (simp add: example_world_def)
  have ek: "effective_top_k (example_env rs) 10 = 10" for rs
    by (simp add: effective_top_k_def)
  have rq1: "rag_query (example_env example_index) (query ?req) (PyInt 10) None
          (example_world\<lparr>calls := calls example_world @
              [CacheGet (generate_key (example_env example_index) (query ?req) (session_id ?req))]\<rparr>)
       = (example_world\<lparr>calls := calls example_world @
              CacheGet (generate_key (example_env example_index) (query ?req) (session_id ?req))
                # [Embed ''I have chest pain'', VectorSearch 10]\<rparr>,
          Inr \<lparr>rag_response = get_emergency_response,
               rag_sources = extract_sources (map format_match example_index),
               rag_confidence = 1, rag_emergency = Some True\<rparr>)"
    using rag_query_emergency [of "''I have chest pain''" "PyInt 10" 10
        "example_env example_index" "[0.1, 0.2, 0.3]" None example_index] d k
    by (simp add: ek) (simp add: example_env_def example_index_def)
  have rq2: "rag_query (example_env []) (query ?req) (PyInt 10) None
          (example_world\<lparr>calls := calls example_world @
              [CacheGet (generate_key (example_env []) (query ?req) (session_id ?req))]\<rparr>)
       = (example_world\<lparr>calls := calls example_world @
              CacheGet (generate_key (example_env []) (query ?req) (session_id ?req))
                # [Embed ''I have chest pain'', VectorSearch 10]\<rparr>,
          Inr no_match_answer)"
    using rag_query_no_match [of "PyInt 10" 10 "example_env []" "''I have chest pain''"
        "[0.1, 0.2, 0.3]" None] k
    by (simp add: ek) (simp add: example_env_def)
  have c1: "calls (fst (chat_text (example_env example_index) ?req example_world))
       = [CacheGet ?key, Embed ''I have chest pain'', VectorSearch 10,
          SaveQuery ''s1'' ''I have chest pain'', CacheSetex ?key]"
    using chat_text_done(2) [OF miss rq1 mongo]
    by (simp add: example_keys) (simp add: example_world_def)
  have c2: "snd (chat_text (example_env []) ?req example_world)
       = Inr \<lparr>response = rag_response no_match_answer, sources = [], confidence = 0,
              cached = False, transcribed_query = None, audio_url = None\<rparr>"
    using chat_text_done(1) [OF miss rq2 mongo]
    by (simp add: response_of_rag_def no_match_answer_def)
  from d c1 c2 show ?thesis by blast
qed

text \<open>
  C1, amended. For every query that contains an emergency phrase, \<open>chat_text\<close> begins
  with the cache lookup and never calls the generation model. When the lookup misses, the
  embedding succeeds, the retrieval is not empty and the exchange can be saved, the calls
  are the cache lookup, the embedding, the vector search, the save and the cache store, and
  the returned answer is the fixed emergency text with confidence 1.0.
\<close>

theorem emergency_query_never_generates:
  assumes em: "detect_emergency_keywords (query req)"
  shows "(\<exists>rest. calls (fst (chat_text e req w))
                  = calls w @ CacheGet (generate_key e (query req) (session_id req)) # rest
               \<and> (\<forall>p. Generate p \<notin> set rest))
       \<and> ((\<not> redis_up w \<or> redis_kv w (generate_key e (query req) (session_id req)) = None)
            \<and> create_embedding e (query req) = Inr emb
            \<and> index_query e emb 10 [] = Inr rs \<and> rs \<noteq> [] \<and> mongo_up w \<longrightarrow>
          calls (fst (chat_text e req w))
            = calls w @ [CacheGet (generate_key e (query req) (session_id req)),
                         Embed (query req), VectorSearch 10,
                         SaveQuery (session_id req) (query req),
                         CacheSetex (generate_key e (query req) (session_id req))]
          \<and> snd (chat_text e req w)
            = Inr \<lparr>response = get_emergency_response,
                   sources = extract_sources (map format_match rs),
                   confidence = 1, cached = False,
                   transcribed_query = None, audio_url = None\<rparr>)"
proof -
  let ?key = "generate_key e (query req) (session_id req)"
  let ?w1 = "w\<lparr>calls := calls w @ [CacheGet ?key]\<rparr>"
  have part1: "\<exists>rest. calls (fst (chat_text e req w)) = calls w @ CacheGet ?key # rest
               \<and> (\<forall>p. Generate p \<notin> set rest)"
  proof (cases "\<not> redis_up w \<or> redis_kv w ?key = None")
    case False
    then obtain ttl c where "redis_up w" "redis_kv w ?key = Some (ttl, c)" by auto
    from chat_text_hit [OF this] have "calls (fst (chat_text e req w)) = calls w @ CacheGet ?key # []"
      by simp
    then show ?thesis by (intro exI [of _ "[]"]) simp
  next
    case miss: True
    from rag_query_after_lookup [of e "query req" "PyInt 10" None w "CacheGet ?key"] em
    obtain evs r where
      rq: "rag_query e (query req) (PyInt 10) None ?w1 = (w\<lparr>calls := calls w @ CacheGet ?key # evs\<rparr>, r)"
      and nogen: "\<forall>p. Generate p \<notin> set evs"
      by blast
    show ?thesis
    proof (cases r)
      case (Inl ex)
      from chat_text_rag_failed(2) [OF miss rq [unfolded Inl]] nogen show ?thesis by blast
    next
      case (Inr rag)
      show ?thesis
      proof (cases "mongo_up w")
        case True
        from chat_text_done(2) [OF miss rq [unfolded Inr] True] nogen show ?thesis
          by (intro exI [of _ "evs @ [SaveQuery (session_id req) (query req), CacheSetex ?key]"])
             simp
      next
        case False
        from chat_text_save_failed(2) [OF miss rq [unfolded Inr] False] nogen show ?thesis
          by (intro exI [of _ "evs @ [SaveQuery (session_id req) (query req)]"]) simp
      qed
    qed
  qed
  have part2: "calls (fst (chat_text e req w))
            = calls w @ [CacheGet ?key, Embed (query req), VectorSearch 10,
                         SaveQuery (session_id req) (query req), CacheSetex ?key]
          \<and> snd (chat_text e req w)
            = Inr \<lparr>response = get_emergency_response,
                   sources = extract_sources (map format_match rs),
                   confidence = 1, cached = False,
                   transcribed_query = None, audio_url = None\<rparr>"
    if miss: "\<not> redis_up w \<or> redis_kv w ?key = None"
      and emb: "create_embedding e (query req) = Inr emb"
      and idx: "index_query e emb 10 [] = Inr rs" and ne: "rs \<noteq> []" and mongo: "mongo_up w"
  proof -
    have k: "coerce_top_k (PyInt 10) = Inr 10"
      by (simp add: coerce_top_k_def)
    have idx': "index_query e emb (effective_top_k e 10) (build_filter None None) = Inr rs"
      using idx by (simp add: effective_top_k_def build_filter_def)
    have rq: "rag_query e (query req) (PyInt 10) None ?w1
        = (w\<lparr>calls := calls w @ CacheGet ?key # [Embed (query req), VectorSearch 10]\<rparr>,
           Inr \<lparr>rag_response = get_emergency_response,
                rag_sources = extract_sources (map format_match rs),
                rag_confidence = 1, rag_emergency = Some True\<rparr>)"
      using rag_query_emergency [OF em k emb idx' ne, of ?w1]
      by (simp add: effective_top_k_def)
    from chat_text_done(1,2) [OF miss rq mongo] show ?thesis
      by (simp add: response_of_rag_def)
  qed
  from part1 part2 show ?thesis by blast
qed

theorem emergency_query_never_generates_witness:
  "detect_emergency_keywords (query \<lparr>query = ''I have chest pain'', session_id = ''s1''\<rparr>)
   \<and> redis_kv example_world
        (generate_key (example_env example_index)
           (query \<lparr>query = ''I have chest pain'', session_id = ''s1''\<rparr>)
           (session_id \<lparr>query = ''I have chest pain'', session_id = ''s1''\<rparr>)) = None
   \<and> create_embedding (example_env example_index)
        (query \<lparr>query = ''I have chest pain'', session_id = ''s1''\<rparr>) = Inr [0.1, 0.2, 0.3]
   \<and> index_query (example_env example_index) [0.1, 0.2, 0.3] 10 [] = Inr example_index
   \<and> example_index \<noteq> []
   \<and> mongo_up example_world
   \<and> snd (chat_text (example_env example_index)
             \<lparr>query = ''I have chest pain'', session_id = ''s1''\<rparr> example_world)
       = Inr \<lparr>response = get_emergency_response,
              sources = extract_sources (map format_match example_index),
              confidence = 1, cached = False,
              transcribed_query = None, audio_url = None\<rparr>"
proof -
  let ?req = "\<lparr>query = ''I have chest pain'', session_id = ''s1''\<rparr>"
  have h0: "detect_emergency_keywords (query ?req)"
    by code_simp
  have h1: "redis_kv example_world
        (generate_key (example_env example_index) (query ?req) (session_id ?req)) = None"
    by (simp add: example_world_def)
  have h2: "create_embedding (example_env example_index) (query ?req) = Inr [0.1, 0.2, 0.3]"
    by (simp add: example_env_def)
  have h3: "index_query (example_env example_index) [0.1, 0.2, 0.3] 10 [] = Inr example_index"
    by (simp add: example_env_def)
  have h4: "example_index \<noteq> []"
    by (simp add: example_index_def)
  have h5: "mongo_up example_world"
    by (simp add: example_world_def)
  from emergency_query_never_generates [OF h0, of "example_env example_index" example_world
      "[0.1, 0.2, 0.3]" example_index] h0 h1 h2 h3 h4 h5
  show ?thesis by blast
qed

section \<open>Cache writes\<close>

lemma example_no_match_request:
  defines "req \<equiv> \<lparr>query = ''What is gout?'', session_id = ''s1''\<rparr>"
  defines "key \<equiv> ''chat:69964c7a1656d06d470fea158e680876''"
  defines "w' \<equiv> fst (chat_text (example_env []) req example_world)"
  shows "snd (chat_text (example_env []) req example_world)
           = Inr \<lparr>response = rag_response no_match_answer, sources = [], confidence = 0,
                  cached = False, transcribed_query = None, audio_url = None\<rparr>"
    and "redis_kv w' key
           = Some (3600, \<lparr>cached_response = rag_response no_match_answer,
                          cached_sources = [], cached_confidence = 0\<rparr>)"
    and "redis_up w'"
    and "snd (chat_text (example_env []) req w')
           = Inr \<lparr>response = rag_response no_match_answer, sources = [], confidence = 0,
                  cached = True, transcribed_query = None, audio_url = None\<rparr>"
    and "redis_kv (fst (chat_text (example_env []) req w')) = redis_kv w'"
proof -
  have gk: "generate_key (example_env []) (query req) (session_id req) = key"
    by (simp add: req_def key_def example_keys)
  have k: "coerce_top_k (PyInt 10) = Inr 10"
    by (simp add: coerce_top_k_def)
  have miss: "\<not> redis_up example_world
        \<or> redis_kv example_world (generate_key (example_env []) (query req) (session_id req)) = None"
    by (simp add: example_world_def)
  have mongo: "mongo_up example_world" and up: "redis_up example_world"
    by (simp_all add: example_world_def)
  have rq: "rag_query (example_env []) (query req) (PyInt 10) None
          (example_world\<lparr>calls := calls example_world @
              [CacheGet (generate_key (example_env []) (query req) (session_id req))]\<rparr>)
       = (example_world\<lparr>calls := calls example_world @
              CacheGet (generate_key (example_env []) (query req) (session_id req))
                # [Embed ''What is gout?'', VectorSearch 10]\<rparr>,
          Inr no_match_answer)"
    using rag_query_no_match [of "PyInt 10" 10 "example_env []" "''What is gout?''"
        "[0.1, 0.2, 0.3]" None] k
    by (simp add: effective_top_k_def req_def) (simp add: example_env_def)
  show r1: "snd (chat_text (example_env []) req example_world)
           = Inr \<lparr>response = rag_response no_match_answer, sources = [], confidence = 0,
                  cached = False, transcribed_query = None, audio_url = None\<rparr>"
    using chat_text_done(1) [OF miss rq mongo]
    by (simp add: response_of_rag_def no_match_answer_def)
  have nm: "rag_sources no_match_answer = []" "rag_confidence no_match_answer = 0"
    by (simp_all add: no_match_answer_def)
  have ttl: "CACHE_TTL (example_env []) = 3600"
    by (simp add: example_env_def)
  have "redis_kv w' = (redis_kv example_world)
          (key \<mapsto> (CACHE_TTL (example_env []), cache_dict_of (response_of_rag no_match_answer)))"
    using chat_text_done(3) [OF miss rq mongo] up unfolding w'_def gk by simp
  then show kv: "redis_kv w' key
           = Some (3600, \<lparr>cached_response = rag_response no_match_answer,
                          cached_sources = [], cached_confidence = 0\<rparr>)"
    by (simp add: ttl response_of_rag_def cache_dict_of_def nm)
  show up': "redis_up w'"
    using chat_text_done(4) [OF miss rq mongo] up by (simp add: w'_def)
  from chat_text_hit [of w' "example_env []" req, unfolded gk, OF up' kv]
  show "snd (chat_text (example_env []) req w')
           = Inr \<lparr>response = rag_response no_match_answer, sources = [], confidence = 0,
                  cached = True, transcribed_query = None, audio_url = None\<rparr>"
    and "redis_kv (fst (chat_text (example_env []) req w')) = redis_kv w'"
    by simp_all
qed

text \<open>
  C3 asks that a no-match answer is never stored in the cache. After a request for
  "What is gout?" over an empty index the store holds the no-match answer under the
  request's key, and the same request is then answered from the cache.
\<close>

theorem no_match_answer_cached_counterexample:
  "redis_kv (fst (chat_text (example_env [])
                    \<lparr>query = ''What is gout?'', session_id = ''s1''\<rparr> example_world))
      ''chat:69964c7a1656d06d470fea158e680876''
     = Some (3600, \<lparr>cached_response = rag_response no_match_answer,
                    cached_sources = [], cached_confidence = 0\<rparr>)
   \<and> snd (chat_text (example_env []) \<lparr>query = ''What is gout?'', session_id = ''s1''\<rparr>
           (fst (chat_text (example_env [])
                   \<lparr>query = ''What is gout?'', session_id = ''s1''\<rparr> example_world)))
     = Inr \<lparr>response = rag_response no_match_answer, sources = [], confidence = 0,
            cached = True, transcribed_query = None, audio_url = None\<rparr>"
  using example_no_match_request(2,4) by simp

text \<open>
  C3, amended. Every request that misses the cache and completes is written to the cache
  under its key, whichever path produced the answer; the last call of such a request is
  the cache store, and on a reachable store the entry is the returned answer. A request
  answered from the cache, and a request that fails, leave the store as it was and make
  no cache store call.
\<close>

theorem chat_text_cache_writes:
  "(snd (chat_text e req w) = Inr resp \<and> \<not> cached resp \<longrightarrow>
      (\<exists>pre. calls (fst (chat_text e req w))
               = pre @ [CacheSetex (generate_key e (query req) (session_id req))])
      \<and> (redis_up w \<longrightarrow>
           redis_kv (fst (chat_text e req w)) (generate_key e (query req) (session_id req))
             = Some (CACHE_TTL e,
                     \<lparr>cached_response = response resp, cached_sources = sources resp,
                      cached_confidence = confidence resp\<rparr>)))
   \<and> ((snd (chat_text e req w) = Inr resp \<and> cached resp)
        \<or> snd (chat_text e req w) = Inl err \<longrightarrow>
      redis_kv (fst (chat_text e req w)) = redis_kv w
      \<and> (\<exists>evs. calls (fst (chat_text e req w)) = calls w @ evs
                \<and> (\<forall>k. CacheSetex k \<notin> set evs)))"
proof -
  let ?key = "generate_key e (query req) (session_id req)"
  let ?w1 = "w\<lparr>calls := calls w @ [CacheGet ?key]\<rparr>"
  let ?written = "\<lambda>resp. (\<exists>pre. calls (fst (chat_text e req w)) = pre @ [CacheSetex ?key])
      \<and> (redis_up w \<longrightarrow>
           redis_kv (fst (chat_text e req w)) ?key
             = Some (CACHE_TTL e,
                     \<lparr>cached_response = response resp, cached_sources = sources resp,
                      cached_confidence = confidence resp\<rparr>))"
  let ?untouched = "redis_kv (fst (chat_text e req w)) = redis_kv w
      \<and> (\<exists>evs. calls (fst (chat_text e req w)) = calls w @ evs
                \<and> (\<forall>k. CacheSetex k \<notin> set evs))"
  consider
      (hit) r where "snd (chat_text e req w) = Inr r" "cached r" ?untouched
    | (failed) ex where "snd (chat_text e req w) = Inl ex" ?untouched
    | (stored) r where "snd (chat_text e req w) = Inr r" "\<not> cached r" "?written r"
  proof (cases "\<not> redis_up w \<or> redis_kv w ?key = None")
    case False
    then obtain ttl c where h: "redis_up w" "redis_kv w ?key = Some (ttl, c)" by auto
    have "calls (fst (chat_text e req w)) = calls w @ [CacheGet ?key]
          \<and> (\<forall>k. CacheSetex k \<notin> set [CacheGet ?key])"
      using chat_text_hit [OF h] by simp
    then have "\<exists>evs. calls (fst (chat_text e req w)) = calls w @ evs
                \<and> (\<forall>k. CacheSetex k \<notin> set evs)"
      by blast
    with chat_text_hit [OF h] show ?thesis
      by (intro hit [of "\<lparr>response = cached_response c, sources = cached_sources c,
                 confidence = cached_confidence c, cached = True,
                 transcribed_query = None, audio_url = None\<rparr>"]) simp_all
  next
    case miss: True
    from rag_query_after_lookup [of e "query req" "PyInt 10" None w "CacheGet ?key"]
    obtain evs r where
      rq: "rag_query e (query req) (PyInt 10) None ?w1
             = (w\<lparr>calls := calls w @ CacheGet ?key # evs\<rparr>, r)"
      and noset: "\<forall>k. CacheSetex k \<notin> set evs"
      by blast
    show ?thesis
    proof (cases r)
      case (Inl ex)
      note f = chat_text_rag_failed [OF miss rq [unfolded Inl]]
      have "calls (fst (chat_text e req w)) = calls w @ (CacheGet ?key # evs)
          \<and> (\<forall>k. CacheSetex k \<notin> set (CacheGet ?key # evs))"
        using f(2) noset by simp
      then have "\<exists>evs. calls (fst (chat_text e req w)) = calls w @ evs
                \<and> (\<forall>k. CacheSetex k \<notin> set evs)"
        by blast
      with f(1,3) show ?thesis by (intro failed [of "HTTPException 500 ex"]) simp_all
    next
      case (Inr rag)
      show ?thesis
      proof (cases "mongo_up w")
        case False
        note f = chat_text_save_failed [OF miss rq [unfolded Inr] False]
        have "calls (fst (chat_text e req w))
                = calls w @ (CacheGet ?key # evs @ [SaveQuery (session_id req) (query req)])
          \<and> (\<forall>k. CacheSetex k
                  \<notin> set (CacheGet ?key # evs @ [SaveQuery (session_id req) (query req)]))"
          using f(2) noset by simp
        then have "\<exists>evs. calls (fst (chat_text e req w)) = calls w @ evs
                \<and> (\<forall>k. CacheSetex k \<notin> set evs)"
          by blast
        with f(1,3) show ?thesis by (intro failed [of "HTTPException 500 MongoError"]) simp_all
      next
        case True
        note d = chat_text_done [OF miss rq [unfolded Inr] True]
        have "calls (fst (chat_text e req w))
                = (calls w @ CacheGet ?key # evs @ [SaveQuery (session_id req) (query req)])
                    @ [CacheSetex ?key]"
          using d(2) by simp
        then have "\<exists>pre. calls (fst (chat_text e req w)) = pre @ [CacheSetex ?key]"
          by blast
        with d(1,3) show ?thesis
          by (intro stored [of "response_of_rag rag"])
             (simp_all add: response_of_rag_def cache_dict_of_def)
      qed
    qed
  qed
  then show ?thesis
  proof cases
    case (hit r)
    then show ?thesis by auto
  next
    case (failed ex)
    then show ?thesis by auto
  next
    case (stored r)
    then show ?thesis by auto
  qed
qed

theorem chat_text_cache_writes_witness:
  "snd (chat_text (example_env []) \<lparr>query = ''What is gout?'', session_id = ''s1''\<rparr>
          example_world)
     = Inr \<lparr>response = rag_response no_match_answer, sources = [], confidence = 0,
            cached = False, transcribed_query = None, audio_url = None\<rparr>
   \<and> \<not> cached \<lparr>response = rag_response no_match_answer, sources = [], confidence = 0,
                 cached = False, transcribed_query = None, audio_url = None\<rparr>
   \<and> redis_up example_world
   \<and> redis_kv (fst (chat_text (example_env [])
                       \<lparr>query = ''What is gout?'', session_id = ''s1''\<rparr> example_world))
        (generate_key (example_env []) ''What is gout?'' ''s1'')
       = Some (3600, \<lparr>cached_response = rag_response no_match_answer,
                      cached_sources = [], cached_confidence = 0\<rparr>)
   \<and> snd (chat_text (example_env []) \<lparr>query = ''What is gout?'', session_id = ''s1''\<rparr>
          (fst (chat_text (example_env [])
                  \<lparr>query = ''What is gout?'', session_id = ''s1''\<rparr> example_world)))
     = Inr \<lparr>response = rag_response no_match_answer, sources = [], confidence = 0,
            cached = True, transcribed_query = None, audio_url = None\<rparr>
   \<and> cached \<lparr>response = rag_response no_match_answer, sources = [], confidence = 0,
               cached = True, transcribed_query = None, audio_url = None\<rparr>
   \<and> redis_kv (fst (chat_text (example_env [])
                       \<lparr>query = ''What is gout?'', session_id = ''s1''\<rparr>
                       (fst (chat_text (example_env [])
                               \<lparr>query = ''What is gout?'', session_id = ''s1''\<rparr>
                               example_world))))
       = redis_kv (fst (chat_text (example_env [])
                          \<lparr>query = ''What is gout?'', session_id = ''s1''\<rparr> example_world))"
proof -
  let ?req = "\<lparr>query = ''What is gout?'', session_id = ''s1''\<rparr>"
  let ?resp = "\<lparr>response = rag_response no_match_answer, sources = [], confidence = 0,
                 cached = False, transcribed_query = None, audio_url = None\<rparr>"
  let ?hit = "\<lparr>response = rag_response no_match_answer, sources = [], confidence = 0,
                 cached = True, transcribed_query = None, audio_url = None\<rparr>"
  let ?w' = "fst (chat_text (example_env []) ?req example_world)"
  have h1: "snd (chat_text (example_env []) ?req example_world) = Inr ?resp"
    by (rule example_no_match_request(1))
  have h2: "\<not> cached ?resp" by simp
  have h3: "redis_up example_world" by (simp add: example_world_def)
  have h4: "snd (chat_text (example_env []) ?req ?w') = Inr ?hit"
    by (rule example_no_match_request(4))
  have h5: "cached ?hit" by simp
  from chat_text_cache_writes [of "example_env []" ?req example_world ?resp] h1 h2 h3
  have "redis_kv ?w' (generate_key (example_env []) (query ?req) (session_id ?req))
         = Some (CACHE_TTL (example_env []),
                 \<lparr>cached_response = response ?resp, cached_sources = sources ?resp,
                  cached_confidence = confidence ?resp\<rparr>)"
    by blast
  then have c1: "redis_kv ?w' (generate_key (example_env []) ''What is gout?'' ''s1'')
       = Some (3600, \<lparr>cached_response = rag_response no_match_answer,
                      cached_sources = [], cached_confidence = 0\<rparr>)"
    by (simp add: example_env_def)
  from chat_text_cache_writes [of "example_env []" ?req ?w' ?hit] h4 h5
  have c2: "redis_kv (fst (chat_text (example_env []) ?req ?w')) = redis_kv ?w'"
    by blast
  from h1 h2 h3 h4 h5 c1 c2 show ?thesis by blast
qed

section \<open>The low-confidence warning\<close>

lemma example_means:
  "min (float_div (example_env rs) (float_sum (example_env rs)
          (map score (map format_match example_index))) (length (map format_match example_index))) 1
     = 825659931684591 / 1125899906842624"
  "min (float_div (example_env rs) (float_sum (example_env rs)
          (map score (map format_match example_index_low)))
          (length (map format_match example_index_low))) 1
     = 9007199254740991 / 18014398509481984"
proof -
  have ops: "float_sum (example_env rs) = example_float_sum"
    "float_div (example_env rs) = example_float_div"
    by (simp_all add: example_env_def)
  have l1: "map score (map format_match example_index) = [0.9, 0.7, 0.6]"
    and n1: "length (map format_match example_index) = 3"
    by (simp_all add: example_index_def format_match_def)
  have l2: "map score (map format_match example_index_low) = [0.7, 0.6, 0.2]"
    and n2: "length (map format_match example_index_low) = 3"
    by (simp_all add: example_index_low_def format_match_def)
  have v1: "min (example_float_div (example_float_sum [0.9, 0.7, 0.6]) 3) 1
          = 825659931684591 / 1125899906842624"
    by code_simp
  have v2: "min (example_float_div (example_float_sum [0.7, 0.6, 0.2]) 3) 1
          = 9007199254740991 / 18014398509481984"
    by code_simp
  show "min (float_div (example_env rs) (float_sum (example_env rs)
          (map score (map format_match example_index))) (length (map format_match example_index))) 1
     = 825659931684591 / 1125899906842624"
    unfolding ops l1 n1 by (rule v1)
  show "min (float_div (example_env rs) (float_sum (example_env rs)
          (map score (map format_match example_index_low)))
          (length (map format_match example_index_low))) 1
     = 9007199254740991 / 18014398509481984"
    unfolding ops l2 n2 by (rule v2)
qed

text \<open>
  C9 asks for the low-confidence warning on every answer with a confidence below 0.5.
  The fixed no-match answer has confidence 0.0 and does not contain the warning.
\<close>

theorem disclaimer_missing_counterexample:
  "snd (rag_query (example_env []) ''What is gout?'' (PyInt 10) None example_world)
     = Inr no_match_answer
   \<and> rag_confidence no_match_answer < 0.5
   \<and> \<not> str_in disclaimer_low_confidence (rag_response no_match_answer)"
proof -
  have k: "coerce_top_k (PyInt 10) = Inr 10"
    by (simp add: coerce_top_k_def)
  have a: "snd (rag_query (example_env []) ''What is gout?'' (PyInt 10) None example_world)
     = Inr no_match_answer"
    using rag_query_no_match [of "PyInt 10" 10 "example_env []" "''What is gout?''"
        "[0.1, 0.2, 0.3]" None example_world] k
    by (simp add: example_env_def)
  have b: "rag_confidence no_match_answer < 0.5"
    by (simp add: no_match_answer_def)
  have c: "\<not> str_in disclaimer_low_confidence (rag_response no_match_answer)"
    by code_simp
  from a b c show ?thesis by blast
qed

text \<open>
  C9, amended. \<open>format_response\<close> puts the low-confidence warning in front of the text
  when the confidence is below 0.5 and returns the text unchanged otherwise: at 0.49 the
  result starts with the warning, at 0.5 it is the raw text. When the model call succeeds
  on a non-emergency query with a non-empty context, the confidence is the smaller of 1.0
  and the mean score as the interpreter computes it in double precision
  (\<open>sum(scores) / len(scores)\<close>), and the response is \<open>format_response\<close> of the model's text
  at that confidence.
\<close>

theorem low_confidence_disclaimer:
  "(c < 0.5 \<longrightarrow> format_response raw c = disclaimer_low_confidence @ nl @ nl @ raw)
   \<and> (\<not> c < 0.5 \<longrightarrow> format_response raw c = raw)
   \<and> prefix disclaimer_low_confidence (format_response raw 0.49)
   \<and> format_response raw 0.5 = raw
   \<and> (\<not> detect_emergency_keywords q \<and> ms \<noteq> []
        \<and> completion e (build_prompt b (format_context ms) q) = Inr (txt # others) \<longrightarrow>
      snd (generate_response e q ms b w)
        = \<lparr>llm_response =
             format_response txt
               (min (float_div e (float_sum e (map score ms)) (length ms)) 1),
           llm_confidence = min (float_div e (float_sum e (map score ms)) (length ms)) 1,
           llm_emergency = False,
           llm_raw_response = Some txt,
           llm_error = None\<rparr>)"
  by (simp add: format_response_def generate_response_def Let_def)

theorem low_confidence_disclaimer_witness:
  "(0.49 :: real) < 0.5
   \<and> format_response ''Gout is a form of arthritis.'' 0.49
       = disclaimer_low_confidence @ nl @ nl @ ''Gout is a form of arthritis.''
   \<and> \<not> (0.5 :: real) < 0.5
   \<and> format_response ''Gout is a form of arthritis.'' 0.5 = ''Gout is a form of arthritis.''
   \<and> \<not> detect_emergency_keywords ''What is diabetes?''
   \<and> map format_match example_index \<noteq> []
   \<and> completion (example_env example_index)
        (build_prompt True (format_context (map format_match example_index))
           ''What is diabetes?'')
       = Inr [''Diabetes is a chronic condition.'']
   \<and> snd (generate_response (example_env example_index) ''What is diabetes?''
             (map format_match example_index) True example_world)
       = \<lparr>llm_response = ''Diabetes is a chronic condition.'',
          llm_confidence = 825659931684591 / 1125899906842624,
          llm_emergency = False,
          llm_raw_response = Some ''Diabetes is a chronic condition.'',
          llm_error = None\<rparr>
   \<and> \<not> detect_emergency_keywords ''What is gout?''
   \<and> map format_match example_index_low \<noteq> []
   \<and> completion (example_env example_index_low)
        (build_prompt True (format_context (map format_match example_index_low))
           ''What is gout?'')
       = Inr [''Diabetes is a chronic condition.'']
   \<and> snd (generate_response (example_env example_index_low) ''What is gout?''
             (map format_match example_index_low) True example_world)
       = \<lparr>llm_response = disclaimer_low_confidence @ nl @ nl @
                          ''Diabetes is a chronic condition.'',
          llm_confidence = 9007199254740991 / 18014398509481984,
          llm_emergency = False,
          llm_raw_response = Some ''Diabetes is a chronic condition.'',
          llm_error = None\<rparr>"
proof -
  let ?ms = "map format_match example_index"
  let ?lo = "map format_match example_index_low"
  let ?txt = "''Diabetes is a chronic condition.''"
  have h1: "(0.49 :: real) < 0.5" and h2: "\<not> (0.5 :: real) < 0.5"
    by simp_all
  have h3: "\<not> detect_emergency_keywords ''What is diabetes?''"
    by code_simp
  have h4: "?ms \<noteq> []"
    by (simp add: example_index_def)
  have h5: "completion (example_env example_index)
        (build_prompt True (format_context ?ms) ''What is diabetes?'') = Inr [?txt]"
    by (simp add: example_env_def)
  have h6: "\<not> detect_emergency_keywords ''What is gout?''"
    by code_simp
  have h7: "?lo \<noteq> []"
    by (simp add: example_index_low_def)
  have h8: "completion (example_env example_index_low)
        (build_prompt True (format_context ?lo) ''What is gout?'') = Inr [?txt]"
    by (simp add: example_env_def)
  note t1 = low_confidence_disclaimer [of "0.49" "''Gout is a form of arthritis.''"
      "''What is diabetes?''" "?ms" "example_env example_index" True ?txt "[]" example_world]
  note t2 = low_confidence_disclaimer [of "0.5" "''Gout is a form of arthritis.''"
      "''What is gout?''" "?lo" "example_env example_index_low" True ?txt "[]" example_world]
  from t1 h3 h4 h5 have
    "snd (generate_response (example_env example_index) ''What is diabetes?'' ?ms True
            example_world)
       = \<lparr>llm_response = format_response ?txt
            (min (float_div (example_env example_index)
                   (float_sum (example_env example_index) (map score ?ms)) (length ?ms)) 1),
          llm_confidence = min (float_div (example_env example_index)
                   (float_sum (example_env example_index) (map score ?ms)) (length ?ms)) 1,
          llm_emergency = False,
          llm_raw_response = Some ?txt,
          llm_error = None\<rparr>"
    by blast
  then have g1: "snd (generate_response (example_env example_index) ''What is diabetes?'' ?ms
                  True example_world)
       = \<lparr>llm_response = ?txt,
          llm_confidence = 825659931684591 / 1125899906842624,
          llm_emergency = False,
          llm_raw_response = Some ?txt,
          llm_error = None\<rparr>"
    unfolding example_means by (simp add: format_response_def)
  from t2 h6 h7 h8 have
    "snd (generate_response (example_env example_index_low) ''What is gout?'' ?lo True
            example_world)
       = \<lparr>llm_response = format_response ?txt
            (min (float_div (example_env example_index_low)
                   (float_sum (example_env example_index_low) (map score ?lo)) (length ?lo)) 1),
          llm_confidence = min (float_div (example_env example_index_low)
                   (float_sum (example_env example_index_low) (map score ?lo)) (length ?lo)) 1,
          llm_emergency = False,
          llm_raw_response = Some ?txt,
          llm_error = None\<rparr>"
    by blast
  then have g2: "snd (generate_response (example_env example_index_low) ''What is gout?'' ?lo
                  True example_world)
       = \<lparr>llm_response = disclaimer_low_confidence @ nl @ nl @ ?txt,
          llm_confidence = 9007199254740991 / 18014398509481984,
          llm_emergency = False,
          llm_raw_response = Some ?txt,
          llm_error = None\<rparr>"
    unfolding example_means by (simp add: format_response_def)
  from t1 h1 have f1: "format_response ''Gout is a form of arthritis.'' 0.49
       = disclaimer_low_confidence @ nl @ nl @ ''Gout is a form of arthritis.''"
    by blast
  from t2 h2 have f2: "format_response ''Gout is a form of arthritis.'' 0.5
       = ''Gout is a form of arthritis.''"
    by blast
  from h1 h2 h3 h4 h5 h6 h7 h8 g1 g2 f1 f2 show ?thesis by blast
qed

end
